theory Spec2Isabelle
  imports Main "HOL-Library.Word"
begin

unbundle bit_operations_syntax

section \<open>Machine integers\<close>

text \<open>
  The fixed-width types of \<^verbatim>\<open>android_media_MediaDescrambler.cpp\<close> are words:
  \<^verbatim>\<open>jint\<close> is a signed 32-bit value (read with \<open>sint\<close>), \<^verbatim>\<open>uint32_t\<close> an
  unsigned one (read with \<open>uint\<close>), \<^verbatim>\<open>jbyte\<close> and \<^verbatim>\<open>uint8_t\<close> are bytes.

  \<^verbatim>\<open>size_t\<close> and \<^verbatim>\<open>ssize_t\<close> have the width of the build (32 bits on the ILP32
  ABIs, 64 bits on LP64). Their values are integers, the width \<open>bits\<close> is a
  parameter and every conversion into them is written out: \<open>to_size_t\<close> keeps the low
  \<open>bits\<close> bits, \<open>to_ssize_t\<close> reads them as two's complement.
\<close>

type_synonym jint = "32 word"
type_synonym jbyte = "8 word"
type_synonym uint8_t = "8 word"
type_synonym uint32_t = "32 word"
type_synonym uint64_t = "64 word"

definition to_size_t :: "nat \<Rightarrow> int \<Rightarrow> int" where
  "to_size_t bits x = take_bit bits x"

definition to_ssize_t :: "nat \<Rightarrow> int \<Rightarrow> int" where
  "to_ssize_t bits x = signed_take_bit (bits - 1) x"

definition INT32_MAX :: int where
  "INT32_MAX = 2147483647"

section \<open>Data model\<close>

text \<open>
  Modelled from the spec: the HIDL type \<^verbatim>\<open>SubSample\<close> is declared in a header that is
  not part of this file; the data model gives it two \<^verbatim>\<open>u32\<close> fields, clear length and
  encrypted length, hence eight bytes.
\<close>

record SubSample =
  numBytesOfClearData :: uint32_t
  numBytesOfEncryptedData :: uint32_t

definition sizeof_SubSample :: int where
  "sizeof_SubSample = 8"

text \<open>The bound \<^verbatim>\<open>(signed)(INT32_MAX / sizeof(SubSample))\<close> of \<^verbatim>\<open>getSubSampleInfo\<close>.\<close>

definition MAX_COUNT :: int where
  "MAX_COUNT = INT32_MAX div sizeof_SubSample"

text \<open>
  \<^verbatim>\<open>status_t\<close> with the five values this file uses, and the service's \<^verbatim>\<open>Status\<close>
  enumeration, of which the file names \<^verbatim>\<open>OK\<close> and \<^verbatim>\<open>ERROR_CAS_UNKNOWN\<close>; every other
  enumerator is \<open>ERROR_CAS_OTHER\<close> with its code.
\<close>

datatype status_t = STATUS_OK | INVALID_OPERATION | NEG_ERANGE | NO_MEMORY | FAILED_TRANSACTION

datatype Status = OK | ERROR_CAS_UNKNOWN | ERROR_CAS_OTHER nat

text \<open>
  What a call can go wrong with beyond its return value: a read past the end of a Java
  array, and a call through a null pointer.
\<close>

datatype crash = OutOfBoundsRead | NullDereference

text \<open>
  The effects on the collaborators are recorded as events, in program order:
  borrows and releases of the elements of the two \<^verbatim>\<open>int[]\<close> arguments and of the
  backing \<^verbatim>\<open>byte[]\<close> of a buffer (named by a number), the allocation of the output
  batch, and the call of the remote service.
\<close>

datatype jintArray = ClearDataObj | EncryptedDataObj

datatype event =
    GetIntArrayElements jintArray
  | ReleaseIntArrayElements jintArray
  | Resize nat
  | GetByteArrayElements nat
  | ReleaseByteArrayElements nat
  | RemoteDescramble

section \<open>Subsample layout: \<^verbatim>\<open>getSubSampleInfo\<close>\<close>

text \<open>
  A Java \<^verbatim>\<open>int[]\<close> argument is \<open>None\<close> when the reference is null and \<open>Some xs\<close>
  otherwise. \<open>readElement\<close> is \<^verbatim>\<open>(p == NULL) ? 0 : p[i]\<close>, stored into a \<^verbatim>\<open>uint32_t\<close>
  field (the same 32 bits); the array carries no bound of its own in C++, so an index
  at or past its length is a read outside the borrowed elements.
\<close>

fun readElement :: "jint list option \<Rightarrow> nat \<Rightarrow> crash + uint32_t" where
  "readElement None i = Inr 0"
| "readElement (Some xs) i = (if i < length xs then Inr (xs ! i) else Inl OutOfBoundsRead)"

text \<open>
  The \<^verbatim>\<open>for\<close> loop. The two fields are added as \<^verbatim>\<open>uint32_t\<close> (modulo \<open>2 ^ 32\<close>) and the
  sum is added to the \<^verbatim>\<open>ssize_t\<close> accumulator.
\<close>

function fillSubSamples ::
  "nat \<Rightarrow> jint list option \<Rightarrow> jint list option \<Rightarrow> nat \<Rightarrow> nat \<Rightarrow> SubSample list \<Rightarrow> int
    \<Rightarrow> crash + (SubSample list \<times> int)" where
  "fillSubSamples bits clear enc i n subSamples totalSize =
    (if i < n then
       (case readElement clear i of
          Inl c \<Rightarrow> Inl c
        | Inr c \<Rightarrow>
           (case readElement enc i of
              Inl c' \<Rightarrow> Inl c'
            | Inr e \<Rightarrow>
                fillSubSamples bits clear enc (i + 1) n
                  (subSamples[i := \<lparr>numBytesOfClearData = c, numBytesOfEncryptedData = e\<rparr>])
                  (to_ssize_t bits (totalSize + uint (c + e)))))
     else Inr (subSamples, totalSize))"
  by pat_completeness auto
termination
  by (relation "measure (\<lambda>(bits, clear, enc, i, n, subSamples, totalSize). n - i)") auto

declare fillSubSamples.simps [simp del]

text \<open>\<^verbatim>\<open>hidl_vec::resize\<close>: the old entries that fit are kept, new ones are zero.\<close>

definition resize :: "nat \<Rightarrow> SubSample list \<Rightarrow> SubSample list" where
  "resize n v =
     take n v @ replicate (n - length v) \<lparr>numBytesOfClearData = 0, numBytesOfEncryptedData = 0\<rparr>"

definition borrowInts :: "jintArray \<Rightarrow> jint list option \<Rightarrow> event list" where
  "borrowInts a obj = (case obj of None \<Rightarrow> [] | Some xs \<Rightarrow> [GetIntArrayElements a])"

definition releaseInts :: "jintArray \<Rightarrow> jint list option \<Rightarrow> event list" where
  "releaseInts a obj = (case obj of None \<Rightarrow> [] | Some xs \<Rightarrow> [ReleaseIntArrayElements a])"

record subsample_info =
  info_totalSize :: int
  info_subSamples :: "SubSample list"
  info_events :: "event list"

text \<open>
  \<open>info_totalSize\<close> is the returned \<^verbatim>\<open>ssize_t\<close> (\<open>- 1\<close> on failure). \<open>resize_ok\<close> says that
  the batch has storage after \<^verbatim>\<open>resize\<close> (\<^verbatim>\<open>data() != NULL\<close>); \<open>out0\<close> is the vector the
  caller passes in.
\<close>

definition getSubSampleInfo ::
  "nat \<Rightarrow> bool \<Rightarrow> jint \<Rightarrow> jint list option \<Rightarrow> jint list option \<Rightarrow> SubSample list
    \<Rightarrow> crash + subsample_info" where
  "getSubSampleInfo bits resize_ok numSubSamples clearObj encObj out0 =
    (if sint numSubSamples \<le> 0 \<or> sint numSubSamples \<ge> MAX_COUNT then
       Inr \<lparr>info_totalSize = - 1, info_subSamples = out0, info_events = []\<rparr>
     else
       let n = nat (sint numSubSamples);
           borrowed = borrowInts ClearDataObj clearObj @ borrowInts EncryptedDataObj encObj
                        @ [Resize n]
       in if \<not> resize_ok then
            Inr \<lparr>info_totalSize = - 1, info_subSamples = [], info_events = borrowed\<rparr>
          else
            (case fillSubSamples bits clearObj encObj 0 n (resize n out0) 0 of
               Inl c \<Rightarrow> Inl c
             | Inr (subSamples, final) \<Rightarrow>
                 Inr \<lparr>info_totalSize = (if final < 0 then - 1 else final),
                      info_subSamples = subSamples,
                      info_events = borrowed @ releaseInts EncryptedDataObj encObj
                                      @ releaseInts ClearDataObj clearObj\<rparr>))"

section \<open>Caller buffers: \<^verbatim>\<open>getBufferAndSize\<close>\<close>

text \<open>
  Caller memory is a flat, unchecked byte store addressed by integers, as \<^verbatim>\<open>memcpy\<close>
  sees it. A \<^verbatim>\<open>java.nio.ByteBuffer\<close> is one of three things to this file: a direct
  buffer with an address; a buffer whose \<^verbatim>\<open>array()\<close> yields a \<^verbatim>\<open>byte[]\<close> (named by a
  number) whose elements \<^verbatim>\<open>GetByteArrayElements\<close> hands out at an address; or a buffer
  for which \<^verbatim>\<open>array()\<close> yields null. The lookups of the class and of the method id,
  guarded by \<^verbatim>\<open>CHECK\<close>, are taken to succeed.
\<close>

type_synonym memory = "int \<Rightarrow> uint8_t"

datatype ByteBuffer = DirectByteBuffer int | HeapByteBuffer nat int | NoAccessibleArray

text \<open>
  The result of \<^verbatim>\<open>getBufferAndSize\<close>: an error status with the out-parameters left
  alone, or \<^verbatim>\<open>OK\<close> with \<^verbatim>\<open>*outPtr\<close> and \<^verbatim>\<open>*outByteArray\<close> (\<open>None\<close> is null).
\<close>

datatype buffer_result = BufferError status_t | BufferOk int "nat option"

text \<open>
  The test \<^verbatim>\<open>(jint)length + offset > limit\<close>: \<open>length\<close> is cut to 32 bits, the
  addition is the 32-bit one, the comparison is signed.
\<close>

definition exceeds_limit :: "int \<Rightarrow> jint \<Rightarrow> jint \<Rightarrow> bool" where
  "exceeds_limit len offset limit \<longleftrightarrow> sint ((word_of_int len :: jint) + offset) > sint limit"

definition getBufferAndSize ::
  "ByteBuffer \<Rightarrow> jint \<Rightarrow> jint \<Rightarrow> int \<Rightarrow> buffer_result \<times> event list" where
  "getBufferAndSize byteBuf offset limit len =
    (case byteBuf of
       DirectByteBuffer ptr \<Rightarrow>
         if exceeds_limit len offset limit then (BufferError NEG_ERANGE, [])
         else (BufferOk ptr None, [])
     | HeapByteBuffer byteArray ptr \<Rightarrow>
         if exceeds_limit len offset limit
         then (BufferError NEG_ERANGE,
               [GetByteArrayElements byteArray, ReleaseByteArrayElements byteArray])
         else (BufferOk ptr (Some byteArray), [GetByteArrayElements byteArray])
     | NoAccessibleArray \<Rightarrow> (BufferError INVALID_OPERATION, []))"

section \<open>The shared transport buffer: \<^verbatim>\<open>ensureBufferCapacity\<close>\<close>

text \<open>
  \<^verbatim>\<open>mMem\<close> is an allocation of \<open>mem_size\<close> bytes inside a heap; \<open>mem_heap\<close> is what
  \<^verbatim>\<open>getMemory\<close> yields for it, the heap's id and size, or \<open>None\<close> for a null heap;
  \<open>mem_bytes\<close> are the bytes behind \<^verbatim>\<open>pointer()\<close>, by offset. \<^verbatim>\<open>pointer()\<close> is null for an
  allocation without heap.

  The descriptor \<^verbatim>\<open>mDescramblerSrcBuffer\<close> is handed to the remote service:
  \<open>heapBase\<close> is the \<^verbatim>\<open>hidl_memory\<close> (the heap id in its handle, and the heap size).
\<close>

record IMemory =
  mem_heap :: "(int \<times> nat) option"
  mem_offset :: int
  mem_size :: nat
  mem_bytes :: "nat \<Rightarrow> uint8_t"

record SharedBuffer =
  heapBase :: "(int \<times> nat) option"
  sb_offset :: uint64_t
  sb_size :: uint64_t

record JDescrambler =
  mDealer :: "nat option"
  mMem :: "IMemory option"
  mDescramblerSrcBuffer :: SharedBuffer

definition pointer :: "IMemory \<Rightarrow> (nat \<Rightarrow> uint8_t) option" where
  "pointer m = (case mem_heap m of None \<Rightarrow> None | Some h \<Rightarrow> Some (mem_bytes m))"

text \<open>
  What the platform answers during one call. \<open>size_bits\<close> is the width of \<^verbatim>\<open>size_t\<close>;
  \<open>allocation_alignment\<close> is \<^verbatim>\<open>MemoryDealer::getAllocationAlignment()\<close>;
  \<open>vec_resize_ok\<close> says that the resized \<^verbatim>\<open>hidl_vec\<close> has storage. For a grow of the
  transport buffer, \<open>allocate_ok\<close> says that \<^verbatim>\<open>mDealer->allocate\<close> returned an
  allocation rather than null, \<open>new_heap\<close> and \<open>new_offset\<close> are what \<^verbatim>\<open>getMemory\<close>
  yields for it, \<open>native_handle_ok\<close> says that \<^verbatim>\<open>native_handle_create\<close> succeeded.
  \<open>uninit_status\<close> and \<open>uninit_bytesWritten\<close> are the contents of the two locals of
  \<^verbatim>\<open>native_descramble\<close> that are declared without initialiser.

  Modelled from the spec: the allocator (\<^verbatim>\<open>MemoryDealer\<close>) is an external collaborator;
  a grow "allocates a fresh shared-memory region of that size", so the new allocation
  has the requested size, and it "fails if allocation fails at any step".
\<close>

record env =
  size_bits :: nat
  allocation_alignment :: int
  vec_resize_ok :: bool
  allocate_ok :: bool
  new_heap :: "(int \<times> nat) option"
  new_offset :: int
  native_handle_ok :: bool
  uninit_status :: Status
  uninit_bytesWritten :: uint32_t

text \<open>
  The two roundings, in \<^verbatim>\<open>size_t\<close> arithmetic:
  \<^verbatim>\<open>(neededSize + (alignment - 1)) & ~(alignment - 1)\<close> and
  \<^verbatim>\<open>(neededSize + 65535) & ~65535\<close>.
\<close>

definition align_to :: "nat \<Rightarrow> int \<Rightarrow> int \<Rightarrow> int" where
  "align_to bits alignment neededSize =
     to_size_t bits (neededSize + to_size_t bits (alignment - 1))
       AND to_size_t bits (NOT (to_size_t bits (alignment - 1)))"

definition align_64K :: "nat \<Rightarrow> int \<Rightarrow> int" where
  "align_64K bits neededSize =
     to_size_t bits (neededSize + 65535) AND to_size_t bits (NOT 65535)"

definition ensureBufferCapacity ::
  "env \<Rightarrow> JDescrambler \<Rightarrow> int \<Rightarrow> crash + (bool \<times> JDescrambler)" where
  "ensureBufferCapacity E s neededSize =
    (if (case mMem s of None \<Rightarrow> False | Some m \<Rightarrow> int (mem_size m) \<ge> neededSize)
     then Inr (True, s)
     else
       let neededSize1 = align_to (size_bits E) (allocation_alignment E) neededSize;
           neededSize2 = align_64K (size_bits E) neededSize1
       in if \<not> allocate_ok E then Inl NullDereference
          else
            let m = \<lparr>mem_heap = new_heap E, mem_offset = new_offset E,
                     mem_size = nat neededSize2, mem_bytes = (\<lambda>i. 0)\<rparr>;
                s1 = s\<lparr>mDealer := Some (nat neededSize2), mMem := Some m\<rparr>
            in (case new_heap E of
                  None \<Rightarrow> Inr (False, s1)
                | Some heap \<Rightarrow>
                    if \<not> native_handle_ok E then Inr (False, s1)
                    else Inr (True,
                           s1\<lparr>mDescramblerSrcBuffer :=
                                \<lparr>heapBase = Some heap,
                                 sb_offset = word_of_int (new_offset E),
                                 sb_size = word_of_int neededSize2\<rparr>\<rparr>)))"

section \<open>One transform: \<^verbatim>\<open>JDescrambler::descramble\<close>\<close>

text \<open>
  The remote service receives the key, the batch, the descriptor (as source and as
  destination, both at offset 0) and the bytes of the shared region. Either the
  transaction fails, or the callback delivers a status, a byte count and a message;
  in both cases the region has the bytes the service left there.
\<close>

datatype reply =
    TransactionFailed "nat \<Rightarrow> uint8_t"
  | Reply Status uint32_t string "nat \<Rightarrow> uint8_t"

type_synonym IDescrambler =
  "jbyte \<Rightarrow> SubSample list \<Rightarrow> SharedBuffer \<Rightarrow> (nat \<Rightarrow> uint8_t) \<Rightarrow> reply"

record out_params =
  out_status :: Status
  out_bytesWritten :: uint32_t
  out_detailedError :: string

record descramble_result =
  d_err :: status_t
  d_session :: JDescrambler
  d_memory :: memory
  d_out :: out_params
  d_events :: "event list"

text \<open>The two \<^verbatim>\<open>memcpy\<close> calls: into the region from caller memory, and back.\<close>

definition copy_in :: "memory \<Rightarrow> int \<Rightarrow> nat \<Rightarrow> (nat \<Rightarrow> uint8_t) \<Rightarrow> (nat \<Rightarrow> uint8_t)" where
  "copy_in mem src len bytes = (\<lambda>i. if i < len then mem (src + int i) else bytes i)"

definition copy_out :: "(nat \<Rightarrow> uint8_t) \<Rightarrow> nat \<Rightarrow> int \<Rightarrow> memory \<Rightarrow> memory" where
  "copy_out bytes len dst mem =
     (\<lambda>a. if dst \<le> a \<and> a < dst + int len then bytes (nat (a - dst)) else mem a)"

definition set_bytes :: "JDescrambler \<Rightarrow> IMemory \<Rightarrow> (nat \<Rightarrow> uint8_t) \<Rightarrow> JDescrambler" where
  "set_bytes s m bytes = s\<lparr>mMem := Some (m\<lparr>mem_bytes := bytes\<rparr>)\<rparr>"

text \<open>
  \<open>totalLength\<close> is an \<^verbatim>\<open>ssize_t\<close>; it is converted to \<^verbatim>\<open>size_t\<close> for
  \<^verbatim>\<open>ensureBufferCapacity\<close> and for \<^verbatim>\<open>memcpy\<close>. The offsets are \<^verbatim>\<open>jint\<close>, added to the
  pointers with their sign. \<open>out0\<close> holds what the three out-parameters point to
  before the call.
\<close>

definition descramble ::
  "env \<Rightarrow> IDescrambler \<Rightarrow> JDescrambler \<Rightarrow> memory \<Rightarrow> jbyte \<Rightarrow> int \<Rightarrow> SubSample list
    \<Rightarrow> int \<Rightarrow> jint \<Rightarrow> int \<Rightarrow> jint \<Rightarrow> out_params \<Rightarrow> crash + descramble_result" where
  "descramble E mDescrambler s mem key totalLength subSamples srcPtr srcOffset dstPtr dstOffset out0 =
    (case ensureBufferCapacity E s (to_size_t (size_bits E) totalLength) of
       Inl c \<Rightarrow> Inl c
     | Inr (False, s1) \<Rightarrow>
         Inr \<lparr>d_err = NO_MEMORY, d_session = s1, d_memory = mem, d_out = out0, d_events = []\<rparr>
     | Inr (True, s1) \<Rightarrow>
        (case mMem s1 of
           None \<Rightarrow> Inl NullDereference
         | Some m \<Rightarrow>
            let len = nat (to_size_t (size_bits E) totalLength) in
            if pointer m = None \<and> 0 < len then Inl NullDereference
            else
              let bytes1 = copy_in mem (srcPtr + sint srcOffset) len (mem_bytes m) in
              (case mDescrambler key subSamples (mDescramblerSrcBuffer s1) bytes1 of
                 TransactionFailed bytes2 \<Rightarrow>
                   Inr \<lparr>d_err = FAILED_TRANSACTION, d_session = set_bytes s1 m bytes2,
                        d_memory = mem, d_out = out0, d_events = [RemoteDescramble]\<rparr>
               | Reply status bytesWritten detailedError bytes2 \<Rightarrow>
                   if status = OK then
                     if 0 < uint bytesWritten
                        \<and> to_ssize_t (size_bits E) (uint bytesWritten) \<le> totalLength
                     then
                       if pointer m = None then Inl NullDereference
                       else
                         Inr \<lparr>d_err = STATUS_OK, d_session = set_bytes s1 m bytes2,
                              d_memory = copy_out bytes2 (unat bytesWritten)
                                           (dstPtr + sint dstOffset) mem,
                              d_out = \<lparr>out_status = OK, out_bytesWritten = bytesWritten,
                                       out_detailedError = detailedError\<rparr>,
                              d_events = [RemoteDescramble]\<rparr>
                     else
                       Inr \<lparr>d_err = STATUS_OK, d_session = set_bytes s1 m bytes2,
                            d_memory = mem,
                            d_out = \<lparr>out_status = ERROR_CAS_UNKNOWN,
                                     out_bytesWritten = bytesWritten,
                                     out_detailedError = detailedError\<rparr>,
                            d_events = [RemoteDescramble]\<rparr>
                   else
                     Inr \<lparr>d_err = STATUS_OK, d_session = set_bytes s1 m bytes2,
                          d_memory = mem,
                          d_out = \<lparr>out_status = status, out_bytesWritten = bytesWritten,
                                   out_detailedError = detailedError\<rparr>,
                          d_events = [RemoteDescramble]\<rparr>)))"

section \<open>The entry point: \<^verbatim>\<open>android_media_MediaDescrambler_native_descramble\<close>\<close>

datatype jthrowable =
    IllegalStateException string
  | IllegalArgumentException string
  | OutOfMemoryError
  | RemoteException
  | ServiceSpecificException Status string

record native_result =
  n_return :: jint
  n_thrown :: "jthrowable option"
  n_session :: "JDescrambler option"
  n_memory :: memory
  n_events :: "event list"

definition releaseBytes :: "nat option \<Rightarrow> event list" where
  "releaseBytes byteArray =
     (case byteArray of None \<Rightarrow> [] | Some a \<Rightarrow> [ReleaseByteArrayElements a])"

text \<open>The exception chosen after \<^verbatim>\<open>descramble\<close> has returned.\<close>

definition thrown_after :: "status_t \<Rightarrow> out_params \<Rightarrow> jthrowable option" where
  "thrown_after err out =
     (if err = NO_MEMORY then Some OutOfMemoryError
      else if err = FAILED_TRANSACTION then Some RemoteException
      else if out_status out \<noteq> OK
      then Some (ServiceSpecificException (out_status out) (out_detailedError out))
      else None)"

text \<open>
  \<open>this\<close> is the native context of the Java object (\<open>None\<close> when there is none),
  \<open>dstBuf\<close> is \<open>None\<close> for a null destination, which makes the transform run in
  place on the source pointer.

  One call is modelled at a time: the session's lock lets no two calls overlap. The
  session is taken to hold a service reference, and the JNI calls that borrow array
  elements are taken to succeed. A call that ends in a \<open>crash\<close> has no result.
\<close>

definition native_descramble ::
  "env \<Rightarrow> IDescrambler \<Rightarrow> JDescrambler option \<Rightarrow> memory \<Rightarrow> jbyte \<Rightarrow> jint
    \<Rightarrow> jint list option \<Rightarrow> jint list option
    \<Rightarrow> ByteBuffer \<Rightarrow> jint \<Rightarrow> jint \<Rightarrow> ByteBuffer option \<Rightarrow> jint \<Rightarrow> jint
    \<Rightarrow> crash + native_result" where
  "native_descramble E mDescrambler this mem key numSubSamples clearObj encObj
       srcBuf srcOffset srcLimit dstBuf dstOffset dstLimit =
    (case this of
       None \<Rightarrow>
         Inr \<lparr>n_return = - 1,
              n_thrown = Some (IllegalStateException ''Invalid descrambler object!''),
              n_session = None, n_memory = mem, n_events = []\<rparr>
     | Some s \<Rightarrow>
        (case getSubSampleInfo (size_bits E) (vec_resize_ok E) numSubSamples clearObj encObj [] of
           Inl c \<Rightarrow> Inl c
         | Inr info \<Rightarrow>
            let totalLength = info_totalSize info in
            if totalLength < 0 then
              Inr \<lparr>n_return = - 1,
                   n_thrown = Some (IllegalArgumentException ''Invalid subsample info!''),
                   n_session = Some s, n_memory = mem, n_events = info_events info\<rparr>
            else
              (case getBufferAndSize srcBuf srcOffset srcLimit
                      (to_size_t (size_bits E) totalLength) of
                 (BufferError err, ev1) \<Rightarrow>
                   Inr \<lparr>n_return = - 1,
                        n_thrown = Some (IllegalArgumentException
                                     ''Invalid buffer offset and/or size for subsamples!''),
                        n_session = Some s, n_memory = mem,
                        n_events = info_events info @ ev1\<rparr>
               | (BufferOk srcPtr srcArray, ev1) \<Rightarrow>
                  (case (case dstBuf of
                           None \<Rightarrow> (BufferOk srcPtr None, [])
                         | Some buf \<Rightarrow>
                             getBufferAndSize buf dstOffset dstLimit
                               (to_size_t (size_bits E) totalLength)) of
                     (BufferError err, ev2) \<Rightarrow>
                       Inr \<lparr>n_return = - 1,
                            n_thrown = Some (IllegalArgumentException
                                         ''Invalid buffer offset and/or size for subsamples!''),
                            n_session = Some s, n_memory = mem,
                            n_events = info_events info @ ev1 @ ev2\<rparr>
                   | (BufferOk dstPtr dstArray, ev2) \<Rightarrow>
                      (case descramble E mDescrambler s mem key totalLength
                              (info_subSamples info) srcPtr srcOffset dstPtr dstOffset
                              \<lparr>out_status = uninit_status E,
                               out_bytesWritten = uninit_bytesWritten E,
                               out_detailedError = []\<rparr> of
                         Inl c \<Rightarrow> Inl c
                       | Inr r \<Rightarrow>
                           Inr \<lparr>n_return = out_bytesWritten (d_out r),
                                n_thrown = thrown_after (d_err r) (d_out r),
                                n_session = Some (d_session r),
                                n_memory = d_memory r,
                                n_events = info_events info @ ev1 @ ev2 @ d_events r
                                  @ releaseBytes srcArray @ releaseBytes dstArray\<rparr>)))))"

section \<open>Notions used to state the properties\<close>

subsection \<open>Layout\<close>

text \<open>
  \<open>has_elements obj n\<close>: a present array has at least \<open>n\<close> elements. \<open>entry\<close> is the
  \<open>i\<close>-th pair as the batch stores it, an absent array contributing 0; \<open>batch\<close> is the
  batch of the first \<open>n\<close> pairs in input order.
\<close>

definition has_elements :: "jint list option \<Rightarrow> nat \<Rightarrow> bool" where
  "has_elements obj n = (case obj of None \<Rightarrow> True | Some xs \<Rightarrow> n \<le> length xs)"

definition element :: "jint list option \<Rightarrow> nat \<Rightarrow> uint32_t" where
  "element obj i = (case obj of None \<Rightarrow> 0 | Some xs \<Rightarrow> xs ! i)"

definition entry :: "jint list option \<Rightarrow> jint list option \<Rightarrow> nat \<Rightarrow> SubSample" where
  "entry clearObj encObj i =
     \<lparr>numBytesOfClearData = element clearObj i, numBytesOfEncryptedData = element encObj i\<rparr>"

definition batch :: "jint list option \<Rightarrow> jint list option \<Rightarrow> nat \<Rightarrow> SubSample list" where
  "batch clearObj encObj n = map (entry clearObj encObj) [0..<n]"

text \<open>
  One step of the accumulator as the loop performs it, the accumulator after a whole
  batch, and after the first \<open>k\<close> entries.
\<close>

definition add_pair :: "nat \<Rightarrow> SubSample \<Rightarrow> int \<Rightarrow> int" where
  "add_pair bits s t =
     to_ssize_t bits (t + uint (numBytesOfClearData s + numBytesOfEncryptedData s))"

definition accumulated :: "nat \<Rightarrow> SubSample list \<Rightarrow> int" where
  "accumulated bits subs = fold (add_pair bits) subs 0"

definition running_total :: "nat \<Rightarrow> SubSample list \<Rightarrow> nat \<Rightarrow> int" where
  "running_total bits subs k = accumulated bits (take k subs)"

text \<open>The exact sum of all clear and encrypted lengths of a batch, without any wrap-around.\<close>

definition exact_total :: "SubSample list \<Rightarrow> int" where
  "exact_total subs =
     (\<Sum>s\<leftarrow>subs. uint (numBytesOfClearData s) + uint (numBytesOfEncryptedData s))"

text \<open>The events of a layout computation that runs to its end.\<close>

definition layout_events :: "jint list option \<Rightarrow> jint list option \<Rightarrow> nat \<Rightarrow> event list" where
  "layout_events clearObj encObj n =
     borrowInts ClearDataObj clearObj @ borrowInts EncryptedDataObj encObj @ [Resize n]
       @ releaseInts EncryptedDataObj encObj @ releaseInts ClearDataObj clearObj"

subsection \<open>Buffers\<close>

text \<open>
  A buffer passes \<^verbatim>\<open>getBufferAndSize\<close> when it has storage and the test of the limit
  lets it through; \<open>address\<close>, \<open>backing\<close> and \<open>borrowBytes\<close> are then the pointer, the
  array and the events of the call.
\<close>

definition window_ok :: "ByteBuffer \<Rightarrow> jint \<Rightarrow> jint \<Rightarrow> int \<Rightarrow> bool" where
  "window_ok byteBuf offset limit len \<longleftrightarrow>
     byteBuf \<noteq> NoAccessibleArray \<and> \<not> exceeds_limit len offset limit"

fun address :: "ByteBuffer \<Rightarrow> int" where
  "address (DirectByteBuffer ptr) = ptr"
| "address (HeapByteBuffer byteArray ptr) = ptr"
| "address NoAccessibleArray = 0"

fun backing :: "ByteBuffer \<Rightarrow> nat option" where
  "backing (DirectByteBuffer ptr) = None"
| "backing (HeapByteBuffer byteArray ptr) = Some byteArray"
| "backing NoAccessibleArray = None"

definition borrowBytes :: "ByteBuffer \<Rightarrow> event list" where
  "borrowBytes byteBuf =
     (case backing byteBuf of None \<Rightarrow> [] | Some a \<Rightarrow> [GetByteArrayElements a])"

text \<open>
  The number of borrows of the elements of byte array \<open>a\<close> that a run has taken and not
  given back.
\<close>

fun borrow_delta :: "nat \<Rightarrow> event \<Rightarrow> int" where
  "borrow_delta a (GetByteArrayElements b) = (if a = b then 1 else 0)"
| "borrow_delta a (ReleaseByteArrayElements b) = (if a = b then - 1 else 0)"
| "borrow_delta a (GetIntArrayElements x) = 0"
| "borrow_delta a (ReleaseIntArrayElements x) = 0"
| "borrow_delta a (Resize n) = 0"
| "borrow_delta a RemoteDescramble = 0"

definition outstanding :: "event list \<Rightarrow> nat \<Rightarrow> int" where
  "outstanding evs a = (\<Sum>e\<leftarrow>evs. borrow_delta a e)"

subsection \<open>Transport buffer\<close>

text \<open>
  \<open>round_up m x\<close> is \<open>x\<close> rounded up to the next multiple of \<open>m\<close>, as the specification
  words the sizing policy. \<open>capacity\<close> is the current size as the log line of
  \<^verbatim>\<open>ensureBufferCapacity\<close> prints it, \<^verbatim>\<open>mMem == NULL ? 0 : mMem->size()\<close>, which is 0 for
  a session that holds no region; \<open>has_capacity\<close> is the test at the head of
  \<^verbatim>\<open>ensureBufferCapacity\<close>. \<open>regrown\<close> is the session once the dealer and the allocation
  have been replaced by new ones of \<open>N\<close> bytes, \<open>described\<close> the session once the
  descriptor has been derived from the new allocation as well.
\<close>

definition round_up :: "int \<Rightarrow> int \<Rightarrow> int" where
  "round_up m x = ((x + m - 1) div m) * m"

definition capacity :: "JDescrambler \<Rightarrow> int" where
  "capacity s = (case mMem s of None \<Rightarrow> 0 | Some m \<Rightarrow> int (mem_size m))"

definition has_capacity :: "JDescrambler \<Rightarrow> int \<Rightarrow> bool" where
  "has_capacity s n = (case mMem s of None \<Rightarrow> False | Some m \<Rightarrow> n \<le> int (mem_size m))"

definition regrown :: "env \<Rightarrow> JDescrambler \<Rightarrow> int \<Rightarrow> JDescrambler" where
  "regrown E s N =
     s\<lparr>mDealer := Some (nat N),
       mMem := Some \<lparr>mem_heap = new_heap E, mem_offset = new_offset E,
                     mem_size = nat N, mem_bytes = (\<lambda>i. 0)\<rparr>\<rparr>"

definition described :: "env \<Rightarrow> JDescrambler \<Rightarrow> int \<Rightarrow> JDescrambler" where
  "described E s N =
     (regrown E s N)\<lparr>mDescramblerSrcBuffer :=
        \<lparr>heapBase = new_heap E, sb_offset = word_of_int (new_offset E),
         sb_size = word_of_int N\<rparr>\<rparr>"

subsection \<open>Remote service\<close>

text \<open>
  A reply of a service that copies its input to its output unchanged and reports
  success with all \<open>totalLength\<close> bytes written: source and destination are the same
  region, so the first \<open>totalLength\<close> bytes are the ones it was given.
\<close>

definition echo_reply :: "reply \<Rightarrow> (nat \<Rightarrow> uint8_t) \<Rightarrow> int \<Rightarrow> bool" where
  "echo_reply r bytes totalLength =
     (case r of
        TransactionFailed bytes' \<Rightarrow> False
      | Reply status bytesWritten detailedError bytes' \<Rightarrow>
          status = OK \<and> uint bytesWritten = totalLength
          \<and> (\<forall>i < nat totalLength. bytes' i = bytes i))"

text \<open>
  The test of the reported byte count, \<^verbatim>\<open>*bytesWritten > 0 && (ssize_t) *bytesWritten <=
  totalLength\<close>, as \<^verbatim>\<open>descramble\<close> performs it.
\<close>

definition count_accepted :: "nat \<Rightarrow> uint32_t \<Rightarrow> int \<Rightarrow> bool" where
  "count_accepted bits bytesWritten totalLength \<longleftrightarrow>
     0 < uint bytesWritten \<and> to_ssize_t bits (uint bytesWritten) \<le> totalLength"

subsection \<open>Concrete platforms, sessions and services\<close>

text \<open>
  An LP64 and an ILP32 platform on which a grow succeeds, a session that has not
  allocated yet, a session that holds a mapped region of 64 KiB, a service that leaves
  the region alone and reports \<open>n\<close> bytes written, and a caller memory whose byte at
  address \<open>a\<close> is \<open>a\<close> cut to eight bits.
\<close>

definition lp64 :: env where
  "lp64 = \<lparr>size_bits = 64, allocation_alignment = 32, vec_resize_ok = True,
           allocate_ok = True, new_heap = Some (7, 65536), new_offset = 0,
           native_handle_ok = True, uninit_status = ERROR_CAS_OTHER 99,
           uninit_bytesWritten = 12345\<rparr>"

definition ilp32 :: env where
  "ilp32 = lp64\<lparr>size_bits := 32\<rparr>"

definition no_descriptor :: SharedBuffer where
  "no_descriptor = \<lparr>heapBase = None, sb_offset = 0, sb_size = 0\<rparr>"

definition new_session :: JDescrambler where
  "new_session = \<lparr>mDealer = None, mMem = None, mDescramblerSrcBuffer = no_descriptor\<rparr>"

definition region_64K :: IMemory where
  "region_64K = \<lparr>mem_heap = Some (3, 65536), mem_offset = 0, mem_size = 65536,
                 mem_bytes = (\<lambda>i. 0)\<rparr>"

definition session_64K :: JDescrambler where
  "session_64K = \<lparr>mDealer = Some 65536, mMem = Some region_64K,
                  mDescramblerSrcBuffer =
                    \<lparr>heapBase = Some (3, 65536), sb_offset = 0, sb_size = 65536\<rparr>\<rparr>"

definition reports :: "uint32_t \<Rightarrow> IDescrambler" where
  "reports n = (\<lambda>key subSamples buffer bytes. Reply OK n [] bytes)"

definition ramp :: memory where
  "ramp = (\<lambda>a. word_of_int a)"

section \<open>The layout computation\<close>

text \<open>
  The loop, started at index \<open>i\<close> on arrays that are long enough, fills the entries
  from \<open>i\<close> on and folds their sums into the accumulator.
\<close>

lemma readElement_element:
  "has_elements obj n \<Longrightarrow> i < n \<Longrightarrow> readElement obj i = Inr (element obj i)"
  by (cases obj) (auto simp: has_elements_def element_def)

lemma fill_run:
  assumes "i \<le> n" "length subs = n" "has_elements clearObj n" "has_elements encObj n"
  shows "fillSubSamples bits clearObj encObj i n subs t =
           Inr (take i subs @ map (entry clearObj encObj) [i..<n],
                fold (add_pair bits) (map (entry clearObj encObj) [i..<n]) t)"
  using assms
proof (induction bits clearObj encObj i n subs t rule: fillSubSamples.induct)
  case (1 bits clear enc i n subs t)
  show ?case
  proof (cases "i < n")
    case False
    with "1.prems" show ?thesis
      by (simp add: fillSubSamples.simps)
  next
    case True
    let ?x = "entry clear enc i"
    have rc: "readElement clear i = Inr (element clear i)"
      and re: "readElement enc i = Inr (element enc i)"
      using True "1.prems" by (simp_all add: readElement_element)
    have x: "\<lparr>numBytesOfClearData = element clear i, numBytesOfEncryptedData = element enc i\<rparr> = ?x"
      by (simp add: entry_def)
    have a: "to_ssize_t bits (t + uint (element clear i + element enc i)) = add_pair bits ?x t"
      by (simp add: entry_def add_pair_def)
    have ih: "fillSubSamples bits clear enc (Suc i) n (subs[i := ?x]) (add_pair bits ?x t) =
        Inr (take (Suc i) (subs[i := ?x]) @ map (entry clear enc) [Suc i..<n],
             fold (add_pair bits) (map (entry clear enc) [Suc i..<n]) (add_pair bits ?x t))"
      using "1.IH" [OF True rc re] True "1.prems"
      unfolding x a by simp
    have tk: "take (Suc i) (subs[i := ?x]) = take i subs @ [?x]"
      using True "1.prems" by (simp add: take_Suc_conv_app_nth)
    have up: "[i..<n] = i # [Suc i..<n]"
      using True by (simp add: upt_conv_Cons)
    have "fillSubSamples bits clear enc i n subs t =
        fillSubSamples bits clear enc (Suc i) n (subs[i := ?x]) (add_pair bits ?x t)"
      using True rc re
      by (subst fillSubSamples.simps) (simp add: x a)
    also note ih
    finally show ?thesis
      unfolding tk up by simp
  qed
qed

lemma length_resize: "length (resize n v) = n"
  by (simp add: resize_def)

lemma getSubSampleInfo_run:
  assumes "0 < sint numSubSamples" "sint numSubSamples < MAX_COUNT"
    and "has_elements clearObj (nat (sint numSubSamples))"
    and "has_elements encObj (nat (sint numSubSamples))"
  shows "getSubSampleInfo bits True numSubSamples clearObj encObj out0 =
    Inr \<lparr>info_totalSize =
           (if accumulated bits (batch clearObj encObj (nat (sint numSubSamples))) < 0 then - 1
            else accumulated bits (batch clearObj encObj (nat (sint numSubSamples)))),
         info_subSamples = batch clearObj encObj (nat (sint numSubSamples)),
         info_events = layout_events clearObj encObj (nat (sint numSubSamples))\<rparr>"
proof -
  let ?n = "nat (sint numSubSamples)"
  have "fillSubSamples bits clearObj encObj 0 ?n (resize ?n out0) 0 =
      Inr (batch clearObj encObj ?n, accumulated bits (batch clearObj encObj ?n))"
    using fill_run [of 0 ?n "resize ?n out0" clearObj encObj bits 0] assms(3,4)
    by (simp add: length_resize batch_def accumulated_def)
  then show ?thesis
    using assms(1,2) by (simp add: getSubSampleInfo_def layout_events_def Let_def)
qed


lemma exact_total_Cons:
  "exact_total (x # xs) =
     uint (numBytesOfClearData x) + uint (numBytesOfEncryptedData x) + exact_total xs"
  by (simp add: exact_total_def)



text \<open>
  C7. For a count \<open>n \<le> 0\<close> or \<open>n \<ge> MAX_COUNT\<close> the layout computation returns \<open>- 1\<close>
  with no event at all: nothing has been borrowed from the two arrays, so no element of
  them has been read, and the batch has not been resized; the entry point turns the
  \<open>- 1\<close> into an \<^verbatim>\<open>IllegalArgumentException\<close> and returns, the session and the caller
  memory as they were.
\<close>

theorem invalid_count_rejected:
  assumes "sint numSubSamples \<le> 0 \<or> MAX_COUNT \<le> sint numSubSamples"
  shows "getSubSampleInfo bits resize_ok numSubSamples clearObj encObj out0 =
           Inr \<lparr>info_totalSize = - 1, info_subSamples = out0, info_events = []\<rparr>
       \<and> native_descramble E mDescrambler (Some s) mem key numSubSamples clearObj encObj
             srcBuf srcOffset srcLimit dstBuf dstOffset dstLimit =
           Inr \<lparr>n_return = - 1,
                n_thrown = Some (IllegalArgumentException ''Invalid subsample info!''),
                n_session = Some s, n_memory = mem, n_events = []\<rparr>"
  using assms by (auto simp: getSubSampleInfo_def native_descramble_def)

theorem invalid_count_rejected_witness:
  "getSubSampleInfo 64 True 0 (Some [4, 0]) (Some [0, 6]) [] =
     Inr \<lparr>info_totalSize = - 1, info_subSamples = [], info_events = []\<rparr>
   \<and> getSubSampleInfo 32 True 268435455 (Some [4, 0]) None [] =
     Inr \<lparr>info_totalSize = - 1, info_subSamples = [], info_events = []\<rparr>
   \<and> native_descramble lp64 (reports 10) (Some new_session) ramp 0 (- 1) (Some [4, 0]) (Some [0, 6])
        (DirectByteBuffer 0) 0 10 None 0 10 =
     Inr \<lparr>n_return = - 1,
          n_thrown = Some (IllegalArgumentException ''Invalid subsample info!''),
          n_session = Some new_session, n_memory = ramp, n_events = []\<rparr>"
proof -
  have a: "sint (0 :: jint) \<le> 0 \<or> MAX_COUNT \<le> sint (0 :: jint)"
    by simp
  have b: "sint (268435455 :: jint) \<le> 0 \<or> MAX_COUNT \<le> sint (268435455 :: jint)"
    by (simp add: MAX_COUNT_def INT32_MAX_def sizeof_SubSample_def)
  have c: "sint (- 1 :: jint) \<le> 0 \<or> MAX_COUNT \<le> sint (- 1 :: jint)"
    by simp
  show ?thesis
    using invalid_count_rejected [OF a] invalid_count_rejected [OF b]
      invalid_count_rejected [OF c]
    by simp
qed




text \<open>
  The two conditions on the lengths hold for every pair of non-negative \<^verbatim>\<open>jint\<close> values
  and, on LP64, for every batch of fewer than \<open>MAX_COUNT\<close> entries.
\<close>

lemma nonneg_pair_fits:
  assumes "0 \<le> sint (c :: jint)" "0 \<le> sint (e :: jint)"
  shows "uint c + uint e < 2 ^ 32"
proof -
  have lt: "sint x < 2 ^ 31" for x :: jint
    using sint_lt [of x] by simp
  have "uint x = sint x" if "0 \<le> sint x" for x :: jint
  proof -
    have "sint x < 2 ^ 32" using lt [of x] by simp
    then show ?thesis
      using that uint_sint [of x] by (simp add: take_bit_int_eq_self)
  qed
  then have "uint c = sint c" "uint e = sint e"
    using assms by simp_all
  then show ?thesis
    using lt [of c] lt [of e] by simp
qed

lemma exact_total_bound: "exact_total subs < 2 ^ 33 * int (length subs) + 1"
proof (induction subs)
  case Nil
  then show ?case by (simp add: exact_total_def)
next
  case (Cons x xs)
  have "uint (numBytesOfClearData x) < 2 ^ 32" "uint (numBytesOfEncryptedData x) < 2 ^ 32"
    using uint_lt2p [of "numBytesOfClearData x"] uint_lt2p [of "numBytesOfEncryptedData x"]
    by simp_all
  then show ?case
    using Cons.IH by (simp add: exact_total_Cons)
qed

lemma exact_total_lp64_fits:
  assumes "int (length subs) < MAX_COUNT"
  shows "exact_total subs < 2 ^ (64 - 1)"
proof -
  have "int (length subs) < 2 ^ 28"
    using assms by (simp add: MAX_COUNT_def INT32_MAX_def sizeof_SubSample_def)
  then have "2 ^ 33 * int (length subs) + 1 < (2 :: int) ^ 63"
    by simp
  then show ?thesis
    using exact_total_bound [of subs] by simp
qed

text \<open>
  C6. The claim: the computation fails whenever the running total is negative after
  some step, also when the final total is not. The code tests the accumulator once,
  after the loop. On ILP32, with the two pairs of lengths \<open>2147483647\<close> and \<open>1\<close>, the
  exact sum is \<open>2 ^ 32\<close>; the accumulator is negative after the first pair and 0 after
  the second, and the computation succeeds with total 0: the overflow goes undetected.
\<close>

theorem wrapped_total_accepted:
  "exact_total (batch (Some [2147483647, 2147483647]) (Some [1, 1]) 2) = 4294967296
   \<and> running_total 32 (batch (Some [2147483647, 2147483647]) (Some [1, 1]) 2) 1 < 0
   \<and> getSubSampleInfo 32 True 2 (Some [2147483647, 2147483647]) (Some [1, 1]) [] =
     Inr \<lparr>info_totalSize = 0,
          info_subSamples =
            [\<lparr>numBytesOfClearData = 2147483647, numBytesOfEncryptedData = 1\<rparr>,
             \<lparr>numBytesOfClearData = 2147483647, numBytesOfEncryptedData = 1\<rparr>],
          info_events = layout_events (Some [2147483647, 2147483647]) (Some [1, 1]) 2\<rparr>"
  by code_simp

text \<open>
  What the one test decides: for a valid count and arrays that are long enough, the
  result is \<open>- 1\<close> when the accumulator is negative after the last pair, and the
  accumulator otherwise.
\<close>

lemma getSubSampleInfo_total:
  assumes "0 < sint numSubSamples" "sint numSubSamples < MAX_COUNT"
    and "n = nat (sint numSubSamples)"
    and "has_elements clearObj n" "has_elements encObj n"
  shows "map_sum id info_totalSize
           (getSubSampleInfo bits True numSubSamples clearObj encObj out0) =
         Inr (if accumulated bits (batch clearObj encObj n) < 0 then - 1
              else accumulated bits (batch clearObj encObj n))"
  using getSubSampleInfo_run [OF assms(1,2), of clearObj encObj bits out0] assms(3,4,5)
  by simp

text \<open>
  On LP64 the accumulator of a batch of fewer than \<open>MAX_COUNT\<close> entries is never
  negative, at no index: there the test after the loop cannot fire.
\<close>

lemma accumulated_lp64_nonneg_aux:
  assumes "0 \<le> t" "t + 2 ^ 32 * int (length xs) < 2 ^ 63"
  shows "0 \<le> fold (add_pair 64) xs t \<and> fold (add_pair 64) xs t \<le> t + 2 ^ 32 * int (length xs)"
  using assms
proof (induction xs arbitrary: t)
  case Nil
  then show ?case by simp
next
  case (Cons x xs)
  let ?p = "uint (numBytesOfClearData x + numBytesOfEncryptedData x)"
  have p: "0 \<le> ?p" "?p < 2 ^ 32"
    using uint_lt2p [of "numBytesOfClearData x + numBytesOfEncryptedData x"] by simp_all
  have hi: "t + ?p < 2 ^ 63" using Cons.prems p by simp
  have "0 \<le> t + ?p" using Cons.prems(1) p(1) by linarith
  then have lo: "- (2 ^ 63) \<le> t + ?p" by simp
  have step: "add_pair 64 x t = t + ?p"
    using hi lo by (simp add: add_pair_def to_ssize_t_def signed_take_bit_int_eq_self)
  have "0 \<le> fold (add_pair 64) xs (t + ?p)
      \<and> fold (add_pair 64) xs (t + ?p) \<le> t + ?p + 2 ^ 32 * int (length xs)"
    using Cons.IH [of "t + ?p"] Cons.prems p by simp
  then show ?case
    using p(2) by (simp add: step)
qed

lemma running_total_lp64_nonneg:
  assumes "int (length subs) < MAX_COUNT"
  shows "0 \<le> running_total 64 subs k"
proof -
  have "int (length (take k subs)) < 2 ^ 28"
    using assms by (simp add: MAX_COUNT_def INT32_MAX_def sizeof_SubSample_def)
  then have "0 + 2 ^ 32 * int (length (take k subs)) < (2 :: int) ^ 63"
    by simp
  then show ?thesis
    using accumulated_lp64_nonneg_aux [of 0 "take k subs"]
    by (simp add: running_total_def accumulated_def)
qed

section \<open>Buffers and borrows\<close>

lemma outstanding_append [simp]:
  "outstanding (xs @ ys) a = outstanding xs a + outstanding ys a"
  by (simp add: outstanding_def)

lemma outstanding_Nil [simp]: "outstanding [] a = 0"
  by (simp add: outstanding_def)

lemma outstanding_Cons [simp]: "outstanding (e # es) a = borrow_delta a e + outstanding es a"
  by (simp add: outstanding_def)

lemma getBufferAndSize_ok:
  assumes "window_ok byteBuf offset limit len"
  shows "getBufferAndSize byteBuf offset limit len =
           (BufferOk (address byteBuf) (backing byteBuf), borrowBytes byteBuf)"
  using assms by (cases byteBuf) (simp_all add: getBufferAndSize_def window_ok_def borrowBytes_def)

lemma getBufferAndSize_rejected:
  assumes "\<not> window_ok byteBuf offset limit len"
  shows "\<exists>err evs. getBufferAndSize byteBuf offset limit len = (BufferError err, evs)
           \<and> (\<forall>a. outstanding evs a = 0)"
  using assms by (cases byteBuf) (simp_all add: getBufferAndSize_def window_ok_def)

lemma getBufferAndSize_error_balanced:
  assumes "getBufferAndSize byteBuf offset limit len = (BufferError err, evs)"
  shows "outstanding evs a = 0"
  using assms by (cases byteBuf) (auto simp: getBufferAndSize_def split: if_splits)

lemma getBufferAndSize_ok_events:
  assumes "getBufferAndSize byteBuf offset limit len = (BufferOk ptr arr, evs)"
  shows "outstanding (evs @ releaseBytes arr) a = 0"
  using assms
  by (cases byteBuf) (auto simp: getBufferAndSize_def releaseBytes_def split: if_splits)

lemma info_events_no_bytes:
  assumes "getSubSampleInfo bits rok numSubSamples clearObj encObj out0 = Inr info"
  shows "outstanding (info_events info) a = 0"
  using assms
  by (auto simp: getSubSampleInfo_def Let_def borrowInts_def releaseInts_def
      split: if_splits sum.splits option.splits prod.splits)

lemma d_events_no_bytes:
  assumes "descramble E mDescrambler s mem key totalLength subSamples srcPtr srcOffset
             dstPtr dstOffset out0 = Inr r"
  shows "outstanding (d_events r) a = 0"
  using assms
  by (auto simp: descramble_def Let_def
      split: if_splits sum.splits option.splits prod.splits bool.splits reply.splits)

lemma exceeds_limit_exact:
  assumes "0 \<le> len" "len \<le> INT32_MAX" "len + sint offset \<le> INT32_MAX"
  shows "exceeds_limit len offset limit \<longleftrightarrow> len + sint offset > sint limit"
proof -
  have l: "sint (word_of_int len :: jint) = len"
    using assms(1,2) by (simp add: INT32_MAX_def signed_of_int signed_take_bit_int_eq_self)
  have lo: "- (2 ^ 31) \<le> sint offset"
    using sint_ge [of offset] by simp
  have "sint ((word_of_int len :: jint) + offset) = len + sint offset"
    using assms lo l
    by (simp add: sint_word_ariths INT32_MAX_def signed_take_bit_int_eq_self)
  then show ?thesis
    by (simp add: exceeds_limit_def)
qed


lemma exceeds_limit_truncates:
  "exceeds_limit (len + 2 ^ 32 * k) offset limit = exceeds_limit len offset limit"
proof -
  have "(word_of_int (len + 2 ^ 32 * k) :: jint) = word_of_int len"
    unfolding word_of_int_eq_iff by (simp add: take_bit_eq_mod)
  then show ?thesis
    by (simp add: exceeds_limit_def)
qed

lemma native_descramble_run:
  assumes "getSubSampleInfo (size_bits E) (vec_resize_ok E) numSubSamples clearObj encObj [] =
             Inr info"
    and "0 \<le> info_totalSize info"
    and "window_ok srcBuf srcOffset srcLimit (to_size_t (size_bits E) (info_totalSize info))"
    and "case dstBuf of None \<Rightarrow> True
         | Some buf \<Rightarrow>
             window_ok buf dstOffset dstLimit (to_size_t (size_bits E) (info_totalSize info))"
    and "descramble E mDescrambler s mem key (info_totalSize info) (info_subSamples info)
           (address srcBuf) srcOffset
           (case dstBuf of None \<Rightarrow> address srcBuf | Some buf \<Rightarrow> address buf) dstOffset
           \<lparr>out_status = uninit_status E, out_bytesWritten = uninit_bytesWritten E,
            out_detailedError = []\<rparr> = Inr r"
  shows "native_descramble E mDescrambler (Some s) mem key numSubSamples clearObj encObj
           srcBuf srcOffset srcLimit dstBuf dstOffset dstLimit =
         Inr \<lparr>n_return = out_bytesWritten (d_out r),
              n_thrown = thrown_after (d_err r) (d_out r),
              n_session = Some (d_session r),
              n_memory = d_memory r,
              n_events = info_events info @ borrowBytes srcBuf
                @ (case dstBuf of None \<Rightarrow> [] | Some buf \<Rightarrow> borrowBytes buf)
                @ d_events r @ releaseBytes (backing srcBuf)
                @ releaseBytes (case dstBuf of None \<Rightarrow> None | Some buf \<Rightarrow> backing buf)\<rparr>"
proof (cases dstBuf)
  case None
  then show ?thesis
    using assms
    by (simp add: native_descramble_def getBufferAndSize_ok)
next
  case (Some buf)
  then show ?thesis
    using assms
    by (simp add: native_descramble_def getBufferAndSize_ok)
qed

lemma byte_borrows_released:
  assumes "native_descramble E mDescrambler this mem key numSubSamples clearObj encObj
             srcBuf srcOffset srcLimit dstBuf dstOffset dstLimit = Inr r"
    and "n_thrown r \<noteq> Some (IllegalArgumentException
           ''Invalid buffer offset and/or size for subsamples!'')"
  shows "outstanding (n_events r) a = 0"
proof (cases this)
  case None
  then show ?thesis
    using assms by (auto simp: native_descramble_def)
next
  case (Some s)
  show ?thesis
  proof (cases "getSubSampleInfo (size_bits E) (vec_resize_ok E) numSubSamples clearObj encObj []")
    case (Inl c)
    then show ?thesis
      using assms Some by (simp add: native_descramble_def)
  next
    case (Inr info)
    note i = info_events_no_bytes [OF Inr, of a]
    show ?thesis
    proof (cases "info_totalSize info < 0")
      case True
      then show ?thesis
        using assms Some Inr i by (auto simp: native_descramble_def)
    next
      case False
      obtain rs ev1 where src: "getBufferAndSize srcBuf srcOffset srcLimit
          (to_size_t (size_bits E) (info_totalSize info)) = (rs, ev1)"
        by force
      show ?thesis
      proof (cases rs)
        case (BufferError err)
        then show ?thesis
          using assms Some Inr False src by (auto simp: native_descramble_def)
      next
        case (BufferOk srcPtr srcArray)
        note s1 = getBufferAndSize_ok_events [OF src [unfolded BufferOk], of a]
        obtain rd ev2 where dst: "(case dstBuf of
              None \<Rightarrow> (BufferOk srcPtr None, [])
            | Some buf \<Rightarrow> getBufferAndSize buf dstOffset dstLimit
                (to_size_t (size_bits E) (info_totalSize info))) = (rd, ev2)"
          by force
        show ?thesis
        proof (cases rd)
          case (BufferError err)
          then show ?thesis
            using assms Some Inr False src BufferOk dst by (auto simp: native_descramble_def)
        next
          case d: (BufferOk dstPtr dstArray)
          have s2: "outstanding (ev2 @ releaseBytes dstArray) a = 0"
          proof (cases dstBuf)
            case None
            then show ?thesis
              using dst d by (auto simp: releaseBytes_def)
          next
            case (Some buf)
            then show ?thesis
              using dst d getBufferAndSize_ok_events [of buf dstOffset dstLimit _ dstPtr dstArray ev2 a]
              by simp
          qed
          show ?thesis
          proof (cases "descramble E mDescrambler s mem key (info_totalSize info)
              (info_subSamples info) srcPtr srcOffset dstPtr dstOffset
              \<lparr>out_status = uninit_status E, out_bytesWritten = uninit_bytesWritten E,
               out_detailedError = []\<rparr>")
            case (Inl c)
            then show ?thesis
              using assms Some Inr False src BufferOk dst d by (simp add: native_descramble_def)
          next
            case r: (Inr dr)
            have "n_events r = info_events info @ ev1 @ ev2 @ d_events dr
                @ releaseBytes srcArray @ releaseBytes dstArray"
              using assms(1) Some Inr False src BufferOk dst d r
              by (auto simp: native_descramble_def)
            then show ?thesis
              using i s1 s2 d_events_no_bytes [OF r, of a] by simp
          qed
        qed
      qed
    qed
  qed
qed



text \<open>
  A source window that the test rejects ends the call with the exception, before any
  copy or remote call and with every borrow given back; a destination window that the
  test rejects, after an array-backed source has passed, ends it with the borrow of the
  source array outstanding.
\<close>

lemma rejected_source_no_remote_call:
  assumes "getSubSampleInfo (size_bits E) (vec_resize_ok E) numSubSamples clearObj encObj [] =
             Inr info"
    and "0 \<le> info_totalSize info"
    and "\<not> window_ok srcBuf srcOffset srcLimit (to_size_t (size_bits E) (info_totalSize info))"
  shows "\<exists>evs. native_descramble E mDescrambler (Some s) mem key numSubSamples clearObj encObj
           srcBuf srcOffset srcLimit dstBuf dstOffset dstLimit =
         Inr \<lparr>n_return = - 1,
              n_thrown = Some (IllegalArgumentException
                           ''Invalid buffer offset and/or size for subsamples!''),
              n_session = Some s, n_memory = mem, n_events = info_events info @ evs\<rparr>
         \<and> RemoteDescramble \<notin> set evs \<and> (\<forall>a. outstanding evs a = 0)"
proof -
  obtain err evs where
    g: "getBufferAndSize srcBuf srcOffset srcLimit
          (to_size_t (size_bits E) (info_totalSize info)) = (BufferError err, evs)"
    using getBufferAndSize_rejected [OF assms(3)] by blast
  have "RemoteDescramble \<notin> set evs"
    using g by (cases srcBuf) (auto simp: getBufferAndSize_def split: if_splits)
  moreover have "\<forall>a. outstanding evs a = 0"
    using getBufferAndSize_error_balanced [OF g] by simp
  ultimately show ?thesis
    using assms(1,2) g by (simp add: native_descramble_def)
qed

lemma rejected_destination_keeps_source_borrow:
  assumes "getSubSampleInfo (size_bits E) (vec_resize_ok E) numSubSamples clearObj encObj [] =
             Inr info"
    and "0 \<le> info_totalSize info"
    and "window_ok (HeapByteBuffer a ptr) srcOffset srcLimit
           (to_size_t (size_bits E) (info_totalSize info))"
    and "\<not> window_ok buf dstOffset dstLimit (to_size_t (size_bits E) (info_totalSize info))"
  shows "\<exists>r. native_descramble E mDescrambler (Some s) mem key numSubSamples clearObj encObj
           (HeapByteBuffer a ptr) srcOffset srcLimit (Some buf) dstOffset dstLimit = Inr r
         \<and> n_thrown r = Some (IllegalArgumentException
                           ''Invalid buffer offset and/or size for subsamples!'')
         \<and> outstanding (n_events r) a = 1"
proof -
  obtain err evs where
    g: "getBufferAndSize buf dstOffset dstLimit
          (to_size_t (size_bits E) (info_totalSize info)) = (BufferError err, evs)"
    using getBufferAndSize_rejected [OF assms(4)] by blast
  note b = getBufferAndSize_error_balanced [OF g, of a]
  note i = info_events_no_bytes [OF assms(1), of a]
  show ?thesis
    using assms(1,2) g b i getBufferAndSize_ok [OF assms(3)]
    by (simp add: native_descramble_def borrowBytes_def)
qed

text \<open>Two layouts used below: the subsamples \<open>(4, 0), (0, 6)\<close> and a pair of pairs whose sum is \<open>2 ^ 32\<close>.\<close>

lemma events_example:
  "layout_events (Some xs) (Some ys) n =
     [GetIntArrayElements ClearDataObj, GetIntArrayElements EncryptedDataObj, Resize n,
      ReleaseIntArrayElements EncryptedDataObj, ReleaseIntArrayElements ClearDataObj]"
  by (simp add: layout_events_def borrowInts_def releaseInts_def)

lemma batch_2:
  "batch clearObj encObj 2 = [entry clearObj encObj 0, entry clearObj encObj 1]"
  by (simp add: batch_def numeral_2_eq_2)

lemma two_valid: "0 < sint (2 :: jint)" "sint (2 :: jint) < MAX_COUNT" "nat (sint (2 :: jint)) = 2"
  by (simp_all add: MAX_COUNT_def INT32_MAX_def sizeof_SubSample_def)

lemma layout_example:
  "getSubSampleInfo 64 True 2 (Some [4, 0]) (Some [0, 6]) [] =
     Inr \<lparr>info_totalSize = 10,
          info_subSamples =
            [\<lparr>numBytesOfClearData = 4, numBytesOfEncryptedData = 0\<rparr>,
             \<lparr>numBytesOfClearData = 0, numBytesOfEncryptedData = 6\<rparr>],
          info_events =
            [GetIntArrayElements ClearDataObj, GetIntArrayElements EncryptedDataObj, Resize 2,
             ReleaseIntArrayElements EncryptedDataObj, ReleaseIntArrayElements ClearDataObj]\<rparr>"
  using getSubSampleInfo_run [OF two_valid(1,2), of "Some [4, 0]" "Some [0, 6]" 64 "[]"]
  by (simp add: two_valid(3) has_elements_def batch_2 entry_def element_def events_example
      accumulated_def add_pair_def to_ssize_t_def)

lemma layout_wrapping_example:
  "getSubSampleInfo 64 True 2 (Some [2147483647, 2147483647]) (Some [1, 1]) [] =
     Inr \<lparr>info_totalSize = 4294967296,
          info_subSamples =
            [\<lparr>numBytesOfClearData = 2147483647, numBytesOfEncryptedData = 1\<rparr>,
             \<lparr>numBytesOfClearData = 2147483647, numBytesOfEncryptedData = 1\<rparr>],
          info_events =
            [GetIntArrayElements ClearDataObj, GetIntArrayElements EncryptedDataObj, Resize 2,
             ReleaseIntArrayElements EncryptedDataObj, ReleaseIntArrayElements ClearDataObj]\<rparr>"
  using getSubSampleInfo_run [OF two_valid(1,2), of "Some [2147483647, 2147483647]" "Some [1, 1]" 64 "[]"]
  by (simp add: two_valid(3) has_elements_def batch_2 entry_def element_def events_example
      accumulated_def add_pair_def to_ssize_t_def)

lemma grow_4G:
  "ensureBufferCapacity (lp64\<lparr>new_heap := Some (7, 4294967296)\<rparr>) new_session 4294967296 =
     Inr (True, described (lp64\<lparr>new_heap := Some (7, 4294967296)\<rparr>) new_session 4294967296)"
  by (simp add: ensureBufferCapacity_def lp64_def new_session_def described_def regrown_def
      align_to_def align_64K_def to_size_t_def)

text \<open>
  C1. The claim: a call whose source window is out of range, \<open>srcOffset + totalLength >
  srcLimit\<close> in exact arithmetic, fails and never reaches the remote service. The test
  cuts the length to 32 bits before it adds: on LP64 the subsamples
  \<open>(2147483647, 1), (2147483647, 1)\<close> have the total length \<open>2 ^ 32\<close>, which is cut to 0,
  so with offset 0 and limit 0 the window is accepted, the remote service is called and
  no exception is thrown.
\<close>

theorem wrapped_window_accepted:
  "map_sum id info_totalSize
     (getSubSampleInfo 64 True 2 (Some [2147483647, 2147483647]) (Some [1, 1]) []) =
     Inr 4294967296
   \<and> sint (0 :: jint) + 4294967296 > sint (0 :: jint)
   \<and> map_sum id (\<lambda>r. (n_return r, n_thrown r, n_events r))
       (native_descramble (lp64\<lparr>new_heap := Some (7, 4294967296)\<rparr>) (reports 10)
          (Some new_session) ramp 0
          2 (Some [2147483647, 2147483647]) (Some [1, 1])
          (DirectByteBuffer 0) 0 0 None 0 0) =
     Inr (10, None,
          [GetIntArrayElements ClearDataObj, GetIntArrayElements EncryptedDataObj, Resize 2,
           ReleaseIntArrayElements EncryptedDataObj, ReleaseIntArrayElements ClearDataObj,
           RemoteDescramble])"
proof -
  let ?E = "lp64\<lparr>new_heap := Some (7, 4294967296)\<rparr>"
  have b: "size_bits ?E = 64" "vec_resize_ok ?E = True"
    by (simp_all add: lp64_def)
  have m: "mMem (described ?E new_session 4294967296) =
      Some \<lparr>mem_heap = Some (7, 4294967296), mem_offset = 0, mem_size = 4294967296,
            mem_bytes = (\<lambda>i. 0)\<rparr>"
    by (simp add: described_def regrown_def lp64_def)
  show ?thesis
    by (simp add: native_descramble_def b layout_wrapping_example getBufferAndSize_def
        exceeds_limit_def descramble_def grow_4G m pointer_def reports_def thrown_after_def
        releaseBytes_def to_size_t_def to_ssize_t_def Let_def)
qed

text \<open>
  C5. The claim: every borrow of a byte array is given back on every exit path. With
  two array-backed buffers, a source window that is in range and a destination window
  that is not, the destination's borrow is given back by \<^verbatim>\<open>getBufferAndSize\<close> itself, the
  entry point throws and returns, and the borrow of the source array (array 1) is still
  outstanding.
\<close>

theorem source_borrow_leaks:
  "map_sum id (\<lambda>r. (n_return r, n_thrown r, n_events r, outstanding (n_events r) 1))
     (native_descramble lp64 (reports 10) (Some new_session) ramp 0
        2 (Some [4, 0]) (Some [0, 6])
        (HeapByteBuffer 1 0) 0 10 (Some (HeapByteBuffer 2 100)) 0 9) =
   Inr (- 1,
        Some (IllegalArgumentException ''Invalid buffer offset and/or size for subsamples!''),
        [GetIntArrayElements ClearDataObj, GetIntArrayElements EncryptedDataObj, Resize 2,
         ReleaseIntArrayElements EncryptedDataObj, ReleaseIntArrayElements ClearDataObj,
         GetByteArrayElements 1, GetByteArrayElements 2, ReleaseByteArrayElements 2],
        1)"
  by (simp add: native_descramble_def lp64_def layout_example getBufferAndSize_def
      exceeds_limit_def to_size_t_def)


section \<open>The transport buffer\<close>

text \<open>
  Masking with the complement of \<open>2 ^ k - 1\<close> clears the low \<open>k\<close> bits; as long as
  nothing wraps in \<^verbatim>\<open>size_t\<close>, the two roundings of \<^verbatim>\<open>ensureBufferCapacity\<close> are
  \<open>round_up\<close>.
\<close>

lemma and_not_mask_int: "(x :: int) AND NOT (mask k) = (x div 2 ^ k) * 2 ^ k"
proof -
  have "NOT x AND take_bit k x = 0"
    by (auto simp: bit_eq_iff bit_simps)
  then have "x - take_bit k x = x AND NOT (take_bit k x)"
    by (rule disjunctive_diff_eq_and_not)
  moreover have "x AND NOT (take_bit k x) = x AND NOT (mask k)"
    by (auto simp: bit_eq_iff bit_simps)
  moreover have "x - take_bit k x = (x div 2 ^ k) * 2 ^ k"
    by (simp add: take_bit_eq_mod minus_mod_eq_div_mult)
  ultimately show ?thesis by simp
qed

lemma size_and_not_mask:
  assumes "0 \<le> x" "x < 2 ^ bits"
  shows "x AND to_size_t bits (NOT (mask k)) = (x div 2 ^ k) * 2 ^ k"
proof -
  have x: "take_bit bits x = x"
    using assms by (simp add: take_bit_int_eq_self)
  have "0 \<le> (x div 2 ^ k) * 2 ^ k"
    using assms(1) by (simp add: pos_imp_zdiv_nonneg_iff)
  moreover have "(x div 2 ^ k) * 2 ^ k \<le> x"
    by (simp add: minus_mod_eq_div_mult [symmetric])
  ultimately have r: "take_bit bits ((x div 2 ^ k) * 2 ^ k) = (x div 2 ^ k) * 2 ^ k"
    using assms(2) by (simp add: take_bit_int_eq_self)
  have "x AND to_size_t bits (NOT (mask k)) = take_bit bits x AND take_bit bits (NOT (mask k))"
    by (simp add: to_size_t_def x)
  also have "\<dots> = take_bit bits (x AND NOT (mask k))"
    by simp
  finally show ?thesis
    by (simp add: and_not_mask_int r)
qed

lemma round_up_ge:
  assumes "0 < m"
  shows "x \<le> round_up m x"
proof -
  have "(x + m - 1) mod m \<le> m - 1"
    using assms pos_mod_bound [of m "x + m - 1"] by simp
  moreover have "round_up m x = (x + m - 1) - (x + m - 1) mod m"
    by (simp add: round_up_def minus_mod_eq_div_mult)
  ultimately show ?thesis by simp
qed

lemma round_up_fits:
  assumes "0 < m" "m dvd B" "round_up m x < B"
  shows "x + m - 1 < B"
proof (rule ccontr)
  assume "\<not> x + m - 1 < B"
  then have "B \<le> x + m - 1" by simp
  then have "B div m \<le> (x + m - 1) div m"
    using assms(1) by (simp add: zdiv_mono1)
  then have "(B div m) * m \<le> ((x + m - 1) div m) * m"
    using assms(1) by (simp add: mult_right_mono)
  then have "B \<le> round_up m x"
    using assms(2) by (simp add: round_up_def)
  with assms(3) show False by simp
qed

lemma align_to_round_up:
  assumes "0 \<le> n" "k < bits" "n + 2 ^ k - 1 < 2 ^ bits"
  shows "align_to bits (2 ^ k) n = round_up (2 ^ k) n"
proof -
  have m: "(2 :: int) ^ k - 1 = mask k"
    by (simp add: mask_eq_exp_minus_1)
  have a: "to_size_t bits (mask k) = (mask k :: int)"
    using assms(2) by (simp add: to_size_t_def min_def)
  have lo: "0 \<le> n + mask k"
    using assms(1) by (simp add: mask_eq_exp_minus_1)
  have hi: "n + mask k < 2 ^ bits"
    using assms(3) by (simp add: mask_eq_exp_minus_1)
  have b: "to_size_t bits (n + mask k) = n + mask k"
    using lo hi by (simp add: to_size_t_def take_bit_int_eq_self)
  have "align_to bits (2 ^ k) n = (n + mask k) AND to_size_t bits (NOT (mask k))"
    by (simp add: align_to_def m a b)
  also have "\<dots> = ((n + mask k) div 2 ^ k) * 2 ^ k"
    using lo hi by (rule size_and_not_mask)
  finally show ?thesis
    by (simp add: round_up_def mask_eq_exp_minus_1 algebra_simps)
qed

lemma align_64K_round_up:
  assumes "0 \<le> n" "n + 65535 < 2 ^ bits"
  shows "align_64K bits n = round_up 65536 n"
proof -
  have m: "(65535 :: int) = mask 16"
    by (simp add: mask_eq_exp_minus_1)
  have lo: "0 \<le> n + 65535" using assms(1) by simp
  have b: "to_size_t bits (n + 65535) = n + 65535"
    using lo assms(2) by (simp add: to_size_t_def take_bit_int_eq_self)
  have "align_64K bits n = (n + 65535) AND to_size_t bits (NOT (mask 16))"
    by (simp add: align_64K_def b m [symmetric])
  also have "\<dots> = ((n + 65535) div 2 ^ 16) * 2 ^ 16"
    using lo assms(2) by (rule size_and_not_mask)
  finally show ?thesis
    by (simp add: round_up_def)
qed

lemma rounded_size:
  assumes "0 \<le> n" "k < bits" "16 \<le> bits"
    and "round_up 65536 (round_up (2 ^ k) n) < 2 ^ bits"
  shows "align_64K bits (align_to bits (2 ^ k) n) = round_up 65536 (round_up (2 ^ k) n)"
    and "n \<le> round_up 65536 (round_up (2 ^ k) n)"
proof -
  let ?n1 = "round_up (2 ^ k) n"
  have n1: "n \<le> ?n1"
    by (rule round_up_ge) simp
  have n2: "?n1 \<le> round_up 65536 ?n1"
    by (rule round_up_ge) simp
  have d16: "(65536 :: int) dvd 2 ^ bits"
    using assms(3) le_imp_power_dvd [of 16 bits "2 :: int"] by simp
  have dk: "(2 :: int) ^ k dvd 2 ^ bits"
    using assms(2) by (simp add: le_imp_power_dvd)
  have f2: "?n1 + 65535 < 2 ^ bits"
    using round_up_fits [of 65536 "2 ^ bits" ?n1] d16 assms(4) by simp
  have "?n1 < 2 ^ bits"
    using n2 assms(4) by simp
  then have f1: "n + 2 ^ k - 1 < 2 ^ bits"
    using round_up_fits [of "2 ^ k" "2 ^ bits" n] dk by simp
  have "align_to bits (2 ^ k) n = ?n1"
    using assms(1,2) f1 by (rule align_to_round_up)
  moreover have "align_64K bits ?n1 = round_up 65536 ?n1"
    using n1 assms(1) f2 by (intro align_64K_round_up) simp_all
  ultimately show "align_64K bits (align_to bits (2 ^ k) n) = round_up 65536 ?n1"
    by simp
  show "n \<le> round_up 65536 ?n1"
    using n1 n2 by simp
qed

lemma ensureBufferCapacity_noop:
  assumes "has_capacity s n"
  shows "ensureBufferCapacity E s n = Inr (True, s)"
  using assms by (simp add: ensureBufferCapacity_def has_capacity_def split: option.splits)

lemma has_capacity_mono:
  assumes "has_capacity s n" "m \<le> n"
  shows "has_capacity s m"
  using assms by (auto simp: has_capacity_def split: option.splits)

lemma ensureBufferCapacity_grow:
  assumes "\<not> has_capacity s n" "allocate_ok E"
  shows "ensureBufferCapacity E s n =
    (let N = align_64K (size_bits E) (align_to (size_bits E) (allocation_alignment E) n)
     in if new_heap E \<noteq> None \<and> native_handle_ok E then Inr (True, described E s N)
        else Inr (False, regrown E s N))"
  using assms
  by (auto simp: ensureBufferCapacity_def has_capacity_def Let_def described_def regrown_def
      split: option.splits)


lemma has_capacity_described:
  assumes "0 \<le> N"
  shows "has_capacity (described E s N) n \<longleftrightarrow> n \<le> N"
  using assms by (simp add: has_capacity_def described_def regrown_def)

lemma has_capacity_iff:
  "has_capacity s n \<longleftrightarrow> mMem s \<noteq> None \<and> n \<le> capacity s"
  by (simp add: has_capacity_def capacity_def split: option.splits)

text \<open>
  C8. The claim: whenever the current capacity is at least \<open>n\<close>, the call is a successful
  no-op. A session that holds no region has capacity 0, which is at least \<open>n = 0\<close>; the
  head of \<^verbatim>\<open>ensureBufferCapacity\<close> asks for a region first (\<^verbatim>\<open>mMem != NULL\<close>), so the call
  allocates a dealer and a region of 0 bytes and writes a descriptor, and where the
  platform yields no heap for the new region it reports failure.
\<close>

theorem empty_session_zero_grows:
  "capacity new_session = 0
   \<and> ensureBufferCapacity lp64 new_session 0 = Inr (True, described lp64 new_session 0)
   \<and> mMem (described lp64 new_session 0) \<noteq> mMem new_session
   \<and> mDescramblerSrcBuffer (described lp64 new_session 0) \<noteq> mDescramblerSrcBuffer new_session
   \<and> map_sum id fst (ensureBufferCapacity (lp64\<lparr>new_heap := None\<rparr>) new_session 0) =
       Inr False"
  by (simp add: capacity_def ensureBufferCapacity_def lp64_def new_session_def no_descriptor_def
      described_def regrown_def align_to_def align_64K_def to_size_t_def)

text \<open>
  C8, amended. When the session holds a region and its capacity is at least \<open>n\<close>,
  \<^verbatim>\<open>ensureBufferCapacity\<close> succeeds and leaves the session, region and descriptor
  included, as it was, and so does every later call for a size that is not larger.
  Otherwise (the session holds no region, or a smaller one), when the platform grants
  the grow (the alignment being a power of two and the rounded size fitting
  \<^verbatim>\<open>size_t\<close>), it succeeds with a fresh region whose size is \<open>n\<close> rounded up to the
  alignment and then to the next multiple of 64 KiB, which is at least \<open>n\<close>, and with
  the descriptor made of the new region's heap, offset and size; calls for sizes up to
  \<open>n\<close> then leave that session alone.
\<close>

theorem ensureBufferCapacity_contract:
  "(mMem s \<noteq> None \<and> n \<le> capacity s \<longrightarrow>
      (\<forall>E' m. m \<le> n \<longrightarrow> ensureBufferCapacity E' s m = Inr (True, s)))
   \<and> (\<not> (mMem s \<noteq> None \<and> n \<le> capacity s) \<and> 0 \<le> n
        \<and> allocation_alignment E = 2 ^ k \<and> k < size_bits E \<and> 16 \<le> size_bits E
        \<and> round_up 65536 (round_up (2 ^ k) n) < 2 ^ size_bits E
        \<and> allocate_ok E \<and> new_heap E = Some heap \<and> native_handle_ok E \<longrightarrow>
      ensureBufferCapacity E s n =
        Inr (True, described E s (round_up 65536 (round_up (2 ^ k) n)))
      \<and> n \<le> round_up 65536 (round_up (2 ^ k) n)
      \<and> capacity (described E s (round_up 65536 (round_up (2 ^ k) n))) =
          round_up 65536 (round_up (2 ^ k) n)
      \<and> mDescramblerSrcBuffer (described E s (round_up 65536 (round_up (2 ^ k) n))) =
          \<lparr>heapBase = Some heap, sb_offset = word_of_int (new_offset E),
           sb_size = word_of_int (round_up 65536 (round_up (2 ^ k) n))\<rparr>
      \<and> (\<forall>E' m. m \<le> n \<longrightarrow>
            ensureBufferCapacity E' (described E s (round_up 65536 (round_up (2 ^ k) n))) m =
              Inr (True, described E s (round_up 65536 (round_up (2 ^ k) n)))))"
proof (intro conjI impI allI)
  fix E' m
  assume "mMem s \<noteq> None \<and> n \<le> capacity s" "m \<le> n"
  then have "has_capacity s m"
    by (simp add: has_capacity_iff)
  then show "ensureBufferCapacity E' s m = Inr (True, s)"
    by (rule ensureBufferCapacity_noop)
next
  let ?N = "round_up 65536 (round_up (2 ^ k) n)"
  assume h: "\<not> (mMem s \<noteq> None \<and> n \<le> capacity s) \<and> 0 \<le> n
        \<and> allocation_alignment E = 2 ^ k \<and> k < size_bits E \<and> 16 \<le> size_bits E
        \<and> ?N < 2 ^ size_bits E
        \<and> allocate_ok E \<and> new_heap E = Some heap \<and> native_handle_ok E"
  then have nc: "\<not> has_capacity s n"
    by (simp add: has_capacity_iff)
  have r: "align_64K (size_bits E) (align_to (size_bits E) (2 ^ k) n) = ?N" "n \<le> ?N"
    using h rounded_size [of n k "size_bits E"] by simp_all
  then have nn: "0 \<le> ?N"
    using h by linarith
  show "ensureBufferCapacity E s n = Inr (True, described E s ?N)"
    using h r(1) ensureBufferCapacity_grow [OF nc, of E] by (simp add: Let_def)
  show "n \<le> ?N" by (rule r(2))
  show "capacity (described E s ?N) = ?N"
    using nn by (simp add: capacity_def described_def regrown_def)
  show "mDescramblerSrcBuffer (described E s ?N) =
      \<lparr>heapBase = Some heap, sb_offset = word_of_int (new_offset E), sb_size = word_of_int ?N\<rparr>"
    using h by (simp add: described_def)
  fix E' m
  assume "m \<le> n"
  then have "has_capacity (described E s ?N) m"
    using nn r(2) by (simp add: has_capacity_described)
  then show "ensureBufferCapacity E' (described E s ?N) m = Inr (True, described E s ?N)"
    by (rule ensureBufferCapacity_noop)
qed

lemma round_up_example: "round_up 65536 (round_up 32 10) = 65536"
  by (simp add: round_up_def)

theorem ensureBufferCapacity_contract_witness:
  "ensureBufferCapacity lp64 session_64K 10 = Inr (True, session_64K)
   \<and> ensureBufferCapacity ilp32 session_64K 7 = Inr (True, session_64K)
   \<and> ensureBufferCapacity lp64 new_session 10 = Inr (True, described lp64 new_session 65536)
   \<and> capacity (described lp64 new_session 65536) = 65536
   \<and> mDescramblerSrcBuffer (described lp64 new_session 65536) =
       \<lparr>heapBase = Some (7, 65536), sb_offset = 0, sb_size = 65536\<rparr>
   \<and> ensureBufferCapacity ilp32 (described lp64 new_session 65536) 7 =
       Inr (True, described lp64 new_session 65536)"
proof -
  have c: "mMem session_64K \<noteq> None \<and> 10 \<le> capacity session_64K"
    by (simp add: capacity_def session_64K_def region_64K_def)
  have g: "\<not> (mMem new_session \<noteq> None \<and> 10 \<le> capacity new_session) \<and> (0 :: int) \<le> 10
        \<and> allocation_alignment lp64 = 2 ^ 5 \<and> 5 < size_bits lp64 \<and> 16 \<le> size_bits lp64
        \<and> round_up 65536 (round_up (2 ^ 5) 10) < 2 ^ size_bits lp64
        \<and> allocate_ok lp64 \<and> new_heap lp64 = Some (7, 65536) \<and> native_handle_ok lp64"
    by (simp add: new_session_def lp64_def round_up_example)
  note t1 = ensureBufferCapacity_contract [of session_64K 10 lp64 5 "(7, 65536)", THEN conjunct1,
      rule_format, OF c]
  note t2 = ensureBufferCapacity_contract [of new_session 10 lp64 5 "(7, 65536)", THEN conjunct2,
      rule_format, OF g]
  have "ensureBufferCapacity lp64 session_64K 10 = Inr (True, session_64K)"
    using t1 [of 10 lp64] by simp
  moreover have "ensureBufferCapacity ilp32 session_64K 7 = Inr (True, session_64K)"
    using t1 [of 7 ilp32] by simp
  moreover have "ensureBufferCapacity lp64 new_session 10 =
      Inr (True, described lp64 new_session 65536)"
    using t2 by (simp add: round_up_example)
  moreover have "capacity (described lp64 new_session 65536) = 65536"
    using t2 by (simp add: round_up_example)
  moreover have "mDescramblerSrcBuffer (described lp64 new_session 65536) =
       \<lparr>heapBase = Some (7, 65536), sb_offset = 0, sb_size = 65536\<rparr>"
    using t2 by (simp add: round_up_example lp64_def)
  moreover have "ensureBufferCapacity ilp32 (described lp64 new_session 65536) 7 =
       Inr (True, described lp64 new_session 65536)"
    using t2 [THEN conjunct2, THEN conjunct2, THEN conjunct2, THEN conjunct2, rule_format,
        of 7 ilp32]
    by (simp add: round_up_example)
  ultimately show ?thesis by simp
qed

text \<open>
  A grow that fails: with a null allocation the call stops in a null dereference; with
  an allocation that has no heap, or without a native handle, \<^verbatim>\<open>descramble\<close> returns
  \<^verbatim>\<open>NO_MEMORY\<close> before any copy or remote call and the session keeps the new allocation
  with the old descriptor; a session whose allocation has no heap cannot take a byte.
\<close>

lemma ensureBufferCapacity_allocate_null:
  assumes "\<not> has_capacity s n" "\<not> allocate_ok E"
  shows "ensureBufferCapacity E s n = Inl NullDereference"
  using assms
  by (auto simp: ensureBufferCapacity_def has_capacity_def Let_def split: option.splits)

lemma failed_grow_no_memory:
  assumes "\<not> has_capacity s (to_size_t (size_bits E) totalLength)" "allocate_ok E"
    and "new_heap E = None \<or> \<not> native_handle_ok E"
  shows "descramble E mDescrambler s mem key totalLength subSamples srcPtr srcOffset
           dstPtr dstOffset out0 =
         Inr \<lparr>d_err = NO_MEMORY,
              d_session = regrown E s
                (align_64K (size_bits E)
                  (align_to (size_bits E) (allocation_alignment E)
                    (to_size_t (size_bits E) totalLength))),
              d_memory = mem, d_out = out0, d_events = []\<rparr>"
  using assms ensureBufferCapacity_grow [OF assms(1,2)]
  by (auto simp: descramble_def Let_def)

lemma regrown_fields:
  "mDescramblerSrcBuffer (regrown E s N) = mDescramblerSrcBuffer s"
  "mMem (regrown E s N) =
     Some \<lparr>mem_heap = new_heap E, mem_offset = new_offset E, mem_size = nat N,
           mem_bytes = (\<lambda>i. 0)\<rparr>"
  "mDealer (regrown E s N) = Some (nat N)"
  by (simp_all add: regrown_def)

lemma stranded_after_failed_grow:
  assumes "new_heap E = None" "0 < to_size_t (size_bits E') totalLength"
    and "to_size_t (size_bits E') totalLength \<le> N"
  shows "descramble E' mDescrambler (regrown E s N) mem key totalLength subSamples
           srcPtr srcOffset dstPtr dstOffset out0 = Inl NullDereference"
proof -
  have "has_capacity (regrown E s N) (to_size_t (size_bits E') totalLength)"
    using assms(2,3) by (simp add: has_capacity_def regrown_def)
  then have "ensureBufferCapacity E' (regrown E s N) (to_size_t (size_bits E') totalLength) =
      Inr (True, regrown E s N)"
    by (rule ensureBufferCapacity_noop)
  then show ?thesis
    using assms(1,2) by (simp add: descramble_def regrown_fields pointer_def Let_def)
qed

lemma native_descramble_no_memory:
  assumes "getSubSampleInfo (size_bits E) (vec_resize_ok E) numSubSamples clearObj encObj [] =
             Inr info"
    and "0 \<le> info_totalSize info"
    and "window_ok srcBuf srcOffset srcLimit (to_size_t (size_bits E) (info_totalSize info))"
    and "case dstBuf of None \<Rightarrow> True
         | Some buf \<Rightarrow>
             window_ok buf dstOffset dstLimit (to_size_t (size_bits E) (info_totalSize info))"
    and "\<not> has_capacity s (to_size_t (size_bits E) (info_totalSize info))" "allocate_ok E"
    and "new_heap E = None \<or> \<not> native_handle_ok E"
  shows "\<exists>r. native_descramble E mDescrambler (Some s) mem key numSubSamples clearObj encObj
           srcBuf srcOffset srcLimit dstBuf dstOffset dstLimit = Inr r
         \<and> n_thrown r = Some OutOfMemoryError \<and> n_memory r = mem
         \<and> n_session r = Some (regrown E s
               (align_64K (size_bits E)
                 (align_to (size_bits E) (allocation_alignment E)
                   (to_size_t (size_bits E) (info_totalSize info)))))
         \<and> RemoteDescramble \<notin> set (n_events r)
         \<and> (\<forall>a. outstanding (n_events r) a = 0)"
proof -
  note d = failed_grow_no_memory [OF assms(5,6,7)]
  note n = native_descramble_run [OF assms(1,2,3,4) d]
  have i: "RemoteDescramble \<notin> set (info_events info)"
    using assms(1)
    by (auto simp: getSubSampleInfo_def Let_def borrowInts_def releaseInts_def
        split: if_splits sum.splits option.splits prod.splits)
  have b: "RemoteDescramble \<notin> set (borrowBytes buf)" "RemoteDescramble \<notin> set (releaseBytes arr)"
    for buf arr
    by (auto simp: borrowBytes_def releaseBytes_def split: option.splits)
  have t: "n_thrown r \<noteq> Some (IllegalArgumentException
        ''Invalid buffer offset and/or size for subsamples!'')"
    if "n_thrown r = Some OutOfMemoryError" for r :: native_result
    using that by simp
  show ?thesis
    unfolding n
    using i b byte_borrows_released [OF n]
    by (auto simp: thrown_after_def split: option.splits)
qed

text \<open>
  C9. The claim: whichever step of a grow fails, \<^verbatim>\<open>ensureBufferCapacity\<close> reports failure
  and the call surfaces \<^verbatim>\<open>OutOfMemoryError\<close> without reaching the remote service. That holds
  when the new allocation has no heap and when no native handle can be created
  (\<open>native_descramble_no_memory\<close>), and the old region is gone by then
  (\<open>regrown_fields\<close>, \<open>stranded_after_failed_grow\<close>). When \<^verbatim>\<open>mDealer->allocate\<close> itself
  yields null, the result is used without a test and the call ends in a null
  dereference.
\<close>

theorem allocate_null_dereferenced:
  "native_descramble (lp64\<lparr>allocate_ok := False\<rparr>) (reports 10) (Some new_session) ramp 0
     2 (Some [4, 0]) (Some [0, 6])
     (DirectByteBuffer 0) 0 10 (Some (DirectByteBuffer 100)) 0 10 = Inl NullDereference"
  by (simp add: native_descramble_def lp64_def layout_example getBufferAndSize_def
      exceeds_limit_def to_size_t_def descramble_def ensureBufferCapacity_def new_session_def
      Let_def)


section \<open>The transform\<close>

lemma to_size_t_id:
  assumes "0 \<le> x" "x < 2 ^ (bits - 1)"
  shows "to_size_t bits x = x"
proof -
  have "(2 :: int) ^ (bits - 1) \<le> 2 ^ bits"
    by (rule power_increasing) simp_all
  then have "x < 2 ^ bits"
    using assms(2) by linarith
  then show ?thesis
    using assms(1) by (simp add: to_size_t_def take_bit_int_eq_self)
qed

lemma to_ssize_t_id:
  assumes "0 \<le> x" "x < 2 ^ (bits - 1)"
  shows "to_ssize_t bits x = x"
proof -
  have "- (2 ^ (bits - 1)) \<le> x"
    using assms(1) by (smt (verit) zero_le_power)
  then show ?thesis
    using assms(2) by (simp add: to_ssize_t_def signed_take_bit_int_eq_self)
qed

lemma to_ssize_t_uint32:
  assumes "32 < bits"
  shows "to_ssize_t bits (uint (w :: uint32_t)) = uint w"
proof -
  have "uint w < 2 ^ 32"
    using uint_lt2p [of w] by simp
  moreover have "(2 :: int) ^ 32 \<le> 2 ^ (bits - 1)"
    using assms by (intro power_increasing) simp_all
  ultimately show ?thesis
    by (intro to_ssize_t_id) simp_all
qed

text \<open>
  C3. A session holds a mapped region of at least \<open>totalLength\<close> bytes and the remote
  service answers as an echo: status \<^verbatim>\<open>OK\<close>, \<open>totalLength\<close> bytes written, the first
  \<open>totalLength\<close> bytes of the region as it received them. Then \<^verbatim>\<open>descramble\<close> returns
  \<^verbatim>\<open>OK\<close> after one remote call, the \<open>totalLength\<close> bytes at \<open>dstPtr + dstOffset\<close> are the
  bytes the caller memory had at \<open>srcPtr + srcOffset\<close>, and every byte outside that
  destination range is unchanged.
\<close>

theorem descramble_roundtrip:
  assumes "mMem s = Some m" "totalLength \<le> int (mem_size m)" "mem_heap m \<noteq> None"
    and "0 \<le> totalLength" "totalLength < 2 ^ (size_bits E - 1)"
    and "echo_reply
           (mDescrambler key subSamples (mDescramblerSrcBuffer s)
              (copy_in mem (srcPtr + sint srcOffset) (nat totalLength) (mem_bytes m)))
           (copy_in mem (srcPtr + sint srcOffset) (nat totalLength) (mem_bytes m))
           totalLength"
  shows "\<exists>r. descramble E mDescrambler s mem key totalLength subSamples srcPtr srcOffset
               dstPtr dstOffset out0 = Inr r
           \<and> d_err r = STATUS_OK \<and> d_events r = [RemoteDescramble]
           \<and> (\<forall>i. 0 \<le> i \<and> i < totalLength \<longrightarrow>
                 d_memory r (dstPtr + sint dstOffset + i) = mem (srcPtr + sint srcOffset + i))
           \<and> (\<forall>a. a < dstPtr + sint dstOffset \<or> dstPtr + sint dstOffset + totalLength \<le> a \<longrightarrow>
                 d_memory r a = mem a)"
proof -
  let ?bytes1 = "copy_in mem (srcPtr + sint srcOffset) (nat totalLength) (mem_bytes m)"
  have sz: "to_size_t (size_bits E) totalLength = totalLength"
    using assms(4,5) by (rule to_size_t_id)
  have "has_capacity s (to_size_t (size_bits E) totalLength)"
    using assms(1,2) by (simp add: has_capacity_def sz)
  then have cap: "ensureBufferCapacity E s (to_size_t (size_bits E) totalLength) = Inr (True, s)"
    by (rule ensureBufferCapacity_noop)
  have ptr: "pointer m \<noteq> None"
    using assms(3) by (auto simp: pointer_def)
  obtain bytesWritten detailedError bytes2 where
    rep: "mDescrambler key subSamples (mDescramblerSrcBuffer s) ?bytes1 =
            Reply OK bytesWritten detailedError bytes2"
    and bw: "uint bytesWritten = totalLength"
    and same: "\<forall>i < nat totalLength. bytes2 i = ?bytes1 i"
    using assms(6) by (auto simp: echo_reply_def split: reply.splits)
  show ?thesis
  proof (cases "totalLength = 0")
    case True
    then show ?thesis
      using cap assms(1) rep bw sz ptr
      by (auto simp: descramble_def Let_def)
  next
    case False
    then have pos: "0 < totalLength" using assms(4) by simp
    have ok: "to_ssize_t (size_bits E) (uint bytesWritten) \<le> totalLength"
      using to_ssize_t_id [OF assms(4,5)] bw by simp
    have un: "int (unat bytesWritten) = totalLength"
      using bw by simp
    have d: "descramble E mDescrambler s mem key totalLength subSamples srcPtr srcOffset
               dstPtr dstOffset out0 =
             Inr \<lparr>d_err = STATUS_OK, d_session = set_bytes s m bytes2,
                  d_memory = copy_out bytes2 (unat bytesWritten) (dstPtr + sint dstOffset) mem,
                  d_out = \<lparr>out_status = OK, out_bytesWritten = bytesWritten,
                           out_detailedError = detailedError\<rparr>,
                  d_events = [RemoteDescramble]\<rparr>"
      using cap assms(1) rep bw pos ok ptr sz
      by (simp add: descramble_def Let_def)
    have inside: "copy_out bytes2 (unat bytesWritten) (dstPtr + sint dstOffset) mem
          (dstPtr + sint dstOffset + i) = mem (srcPtr + sint srcOffset + i)"
      if "0 \<le> i" "i < totalLength" for i
    proof -
      have "nat i < nat totalLength" using that by simp
      then have "bytes2 (nat i) = mem (srcPtr + sint srcOffset + int (nat i))"
        using same by (simp add: copy_in_def)
      then show ?thesis
        using that un by (simp add: copy_out_def)
    qed
    have outside: "copy_out bytes2 (unat bytesWritten) (dstPtr + sint dstOffset) mem a = mem a"
      if "a < dstPtr + sint dstOffset \<or> dstPtr + sint dstOffset + totalLength \<le> a" for a
      using that un by (auto simp: copy_out_def)
    show ?thesis
      unfolding d using inside outside by simp
  qed
qed


theorem descramble_roundtrip_witness:
  "map_sum id (\<lambda>r. (d_err r, map (d_memory r) [99, 100, 101, 102, 103, 104]))
     (descramble lp64 (reports 4) session_64K ramp 0 4 [] 0 0 100 0
        \<lparr>out_status = OK, out_bytesWritten = 0, out_detailedError = []\<rparr>) =
   Inr (STATUS_OK, [99, 0, 1, 2, 3, 104])"
proof -
  have m: "mMem session_64K = Some region_64K" "(4 :: int) \<le> int (mem_size region_64K)"
    "mem_heap region_64K \<noteq> None"
    by (simp_all add: session_64K_def region_64K_def)
  have t: "(0 :: int) \<le> 4" "(4 :: int) < 2 ^ (size_bits lp64 - 1)"
    by (simp_all add: lp64_def)
  have e: "echo_reply
      (reports 4 0 [] (mDescramblerSrcBuffer session_64K)
         (copy_in ramp (0 + sint (0 :: jint)) (nat 4) (mem_bytes region_64K)))
      (copy_in ramp (0 + sint (0 :: jint)) (nat 4) (mem_bytes region_64K)) 4"
    by (simp add: echo_reply_def reports_def)
  obtain r where r: "descramble lp64 (reports 4) session_64K ramp 0 4 [] 0 0 100 0
        \<lparr>out_status = OK, out_bytesWritten = 0, out_detailedError = []\<rparr> = Inr r"
    and err: "d_err r = STATUS_OK"
    and inside: "\<forall>i. 0 \<le> i \<and> i < 4 \<longrightarrow>
        d_memory r (100 + sint (0 :: jint) + i) = ramp (0 + sint (0 :: jint) + i)"
    and outside: "\<forall>a. a < 100 + sint (0 :: jint) \<or> 100 + sint (0 :: jint) + 4 \<le> a \<longrightarrow>
        d_memory r a = ramp a"
    using descramble_roundtrip [where s = session_64K and m = region_64K and totalLength = 4
        and E = lp64 and mDescrambler = "reports 4" and key = 0 and subSamples = "[]"
        and mem = ramp and srcPtr = 0 and srcOffset = 0 and dstPtr = 100 and dstOffset = 0,
        OF m t e]
    by blast
  have "d_memory r 100 = 0" "d_memory r 101 = 1" "d_memory r 102 = 2" "d_memory r 103 = 3"
    using inside [rule_format, of 0] inside [rule_format, of 1] inside [rule_format, of 2]
      inside [rule_format, of 3]
    by (simp_all add: ramp_def)
  moreover have "d_memory r 99 = 99" "d_memory r 104 = 104"
    using outside [rule_format, of 99] outside [rule_format, of 104]
    by (simp_all add: ramp_def)
  ultimately show ?thesis
    using r err by simp
qed


text \<open>
  The reply of the service decides the outcome: bytes are copied back exactly when the
  status is \<^verbatim>\<open>OK\<close> and the count passes the test; the status is overridden exactly
  when it is \<^verbatim>\<open>OK\<close> and the count does not pass. Where \<^verbatim>\<open>ssize_t\<close> is wider than 32 bits
  the test is \<open>0 < bytesWritten \<le> totalLength\<close>.
\<close>

lemma descramble_reply:
  assumes "ensureBufferCapacity E s (to_size_t (size_bits E) totalLength) = Inr (True, s1)"
    and "mMem s1 = Some m" "mem_heap m \<noteq> None"
    and "mDescrambler key subSamples (mDescramblerSrcBuffer s1)
           (copy_in mem (srcPtr + sint srcOffset) (nat (to_size_t (size_bits E) totalLength))
              (mem_bytes m)) = Reply status bytesWritten detailedError bytes2"
  shows "descramble E mDescrambler s mem key totalLength subSamples srcPtr srcOffset
           dstPtr dstOffset out0 =
         Inr \<lparr>d_err = STATUS_OK, d_session = set_bytes s1 m bytes2,
              d_memory =
                (if status = OK \<and> count_accepted (size_bits E) bytesWritten totalLength
                 then copy_out bytes2 (unat bytesWritten) (dstPtr + sint dstOffset) mem
                 else mem),
              d_out =
                \<lparr>out_status =
                   (if status = OK \<and> \<not> count_accepted (size_bits E) bytesWritten totalLength
                    then ERROR_CAS_UNKNOWN else status),
                 out_bytesWritten = bytesWritten, out_detailedError = detailedError\<rparr>,
              d_events = [RemoteDescramble]\<rparr>"
proof -
  have "pointer m \<noteq> None"
    using assms(3) by (auto simp: pointer_def)
  then show ?thesis
    using assms(1,2,4) by (auto simp: descramble_def Let_def count_accepted_def)
qed

lemma count_accepted_wide:
  assumes "32 < bits"
  shows "count_accepted bits bytesWritten totalLength \<longleftrightarrow>
           0 < uint bytesWritten \<and> uint bytesWritten \<le> totalLength"
  by (simp add: count_accepted_def to_ssize_t_uint32 [OF assms])

lemma count_accepted_ilp32:
  assumes "2 ^ 31 \<le> uint bytesWritten" "0 \<le> totalLength"
  shows "count_accepted 32 bytesWritten totalLength"
proof -
  have "uint bytesWritten < 2 ^ 32"
    using uint_lt2p [of bytesWritten] by simp
  then have "(uint bytesWritten - 2 ^ 31 + 2 ^ 32) mod 2 ^ 32 = uint bytesWritten - 2 ^ 31"
    using assms(1) by (simp only: mod_add_self2) (simp add: mod_pos_pos_trivial)
  then have "(uint bytesWritten + 2 ^ 31) mod 2 ^ 32 = uint bytesWritten - 2 ^ 31"
    by (simp add: algebra_simps)
  then have "signed_take_bit 31 (uint bytesWritten) = uint bytesWritten - 2 ^ 32"
    by (simp add: signed_take_bit_eq_take_bit_shift take_bit_eq_mod)
  then show ?thesis
    using assms \<open>uint bytesWritten < 2 ^ 32\<close> by (simp add: count_accepted_def to_ssize_t_def)
qed

lemma invalid_output_wide:
  assumes "32 < size_bits E"
    and "ensureBufferCapacity E s (to_size_t (size_bits E) totalLength) = Inr (True, s1)"
    and "mMem s1 = Some m" "mem_heap m \<noteq> None"
    and "mDescrambler key subSamples (mDescramblerSrcBuffer s1)
           (copy_in mem (srcPtr + sint srcOffset) (nat (to_size_t (size_bits E) totalLength))
              (mem_bytes m)) = Reply OK bytesWritten detailedError bytes2"
    and "bytesWritten = 0 \<or> totalLength < uint bytesWritten"
  shows "descramble E mDescrambler s mem key totalLength subSamples srcPtr srcOffset
           dstPtr dstOffset out0 =
         Inr \<lparr>d_err = STATUS_OK, d_session = set_bytes s1 m bytes2, d_memory = mem,
              d_out = \<lparr>out_status = ERROR_CAS_UNKNOWN, out_bytesWritten = bytesWritten,
                       out_detailedError = detailedError\<rparr>,
              d_events = [RemoteDescramble]\<rparr>"
proof -
  have "\<not> count_accepted (size_bits E) bytesWritten totalLength"
    using assms(6) by (auto simp: count_accepted_wide [OF assms(1)])
  then show ?thesis
    using descramble_reply [where mDescrambler = mDescrambler and key = key
        and subSamples = subSamples and mem = mem and srcPtr = srcPtr and srcOffset = srcOffset,
        OF assms(2,3,4,5)]
    by simp
qed

lemma session_64K_capacity:
  assumes "n \<le> 65536"
  shows "ensureBufferCapacity E session_64K n = Inr (True, session_64K)"
  using assms
  by (intro ensureBufferCapacity_noop) (simp add: has_capacity_def session_64K_def region_64K_def)

text \<open>
  C4. The claim: with status \<^verbatim>\<open>OK\<close> and \<open>bytesWritten > totalLength\<close> nothing is copied and
  the status becomes the unknown error. On ILP32 the count \<open>2147483648\<close> is negative
  once cast to \<^verbatim>\<open>ssize_t\<close> and passes the test for \<open>totalLength = 4\<close>: the status stays
  \<^verbatim>\<open>OK\<close> and the destination is overwritten, also beyond its first four bytes.
\<close>

theorem oversized_count_copied:
  "map_sum id
     (\<lambda>r. (d_err r, out_status (d_out r), out_bytesWritten (d_out r),
           map (d_memory r) [100, 104], map ramp [100, 104]))
     (descramble ilp32 (reports 2147483648) session_64K ramp 0 4 [] 0 0 100 0
        \<lparr>out_status = ERROR_CAS_OTHER 99, out_bytesWritten = 12345, out_detailedError = []\<rparr>) =
   Inr (STATUS_OK, OK, 2147483648, [0, 0], [100, 104])"
proof -
  have b: "size_bits ilp32 = 32"
    by (simp add: ilp32_def lp64_def)
  have c: "ensureBufferCapacity ilp32 session_64K (to_size_t (size_bits ilp32) 4) =
      Inr (True, session_64K)"
    by (simp add: b to_size_t_def session_64K_capacity)
  have m: "mMem session_64K = Some region_64K" "mem_heap region_64K \<noteq> None"
    by (simp_all add: session_64K_def region_64K_def)
  have r: "reports 2147483648 0 [] (mDescramblerSrcBuffer session_64K)
      (copy_in ramp (0 + sint (0 :: jint)) (nat (to_size_t (size_bits ilp32) 4))
         (mem_bytes region_64K)) =
      Reply OK 2147483648 []
        (copy_in ramp (0 + sint (0 :: jint)) (nat (to_size_t (size_bits ilp32) 4))
           (mem_bytes region_64K))"
    by (simp add: reports_def)
  have a: "count_accepted 32 2147483648 4"
    by (simp add: count_accepted_def to_ssize_t_def)
  show ?thesis
    unfolding descramble_reply [where mDescrambler = "reports 2147483648" and key = 0
        and subSamples = "[]" and mem = ramp and srcPtr = 0 and srcOffset = 0, OF c m r]
    by (simp add: b a copy_out_def copy_in_def to_size_t_def region_64K_def ramp_def)
qed


text \<open>
  C10. A call passes the layout computation and both buffer checks, the session has
  (or obtains) a mapped region, and the service reports \<^verbatim>\<open>OK\<close> with a count that is 0 or
  larger than \<open>totalLength\<close>. Then the entry point returns that very count; where
  \<^verbatim>\<open>ssize_t\<close> is wider than 32 bits it also throws the service exception with the unknown
  error status and leaves the caller memory unchanged.
\<close>

theorem invalid_output_returns_reported_count:
  assumes "getSubSampleInfo (size_bits E) (vec_resize_ok E) numSubSamples clearObj encObj [] =
             Inr info"
    and "0 \<le> info_totalSize info"
    and "window_ok srcBuf srcOffset srcLimit (to_size_t (size_bits E) (info_totalSize info))"
    and "case dstBuf of None \<Rightarrow> True
         | Some buf \<Rightarrow>
             window_ok buf dstOffset dstLimit (to_size_t (size_bits E) (info_totalSize info))"
    and "ensureBufferCapacity E s (to_size_t (size_bits E) (info_totalSize info)) =
           Inr (True, s1)"
    and "mMem s1 = Some m" "mem_heap m \<noteq> None"
    and "mDescrambler key (info_subSamples info) (mDescramblerSrcBuffer s1)
           (copy_in mem (address srcBuf + sint srcOffset)
              (nat (to_size_t (size_bits E) (info_totalSize info))) (mem_bytes m)) =
         Reply OK bytesWritten detailedError bytes2"
    and "bytesWritten = 0 \<or> info_totalSize info < uint bytesWritten"
  shows "\<exists>r. native_descramble E mDescrambler (Some s) mem key numSubSamples clearObj encObj
               srcBuf srcOffset srcLimit dstBuf dstOffset dstLimit = Inr r
           \<and> n_return r = bytesWritten
           \<and> (32 < size_bits E \<longrightarrow>
                 n_thrown r = Some (ServiceSpecificException ERROR_CAS_UNKNOWN detailedError)
                 \<and> n_memory r = mem)"
proof -
  note d = descramble_reply [where mDescrambler = mDescrambler and key = key
      and subSamples = "info_subSamples info" and mem = mem and srcPtr = "address srcBuf"
      and srcOffset = srcOffset, OF assms(5,6,7,8)]
  note n = native_descramble_run [OF assms(1,2,3,4) d]
  have "\<not> count_accepted (size_bits E) bytesWritten (info_totalSize info)"
    if "32 < size_bits E"
    using assms(9) by (auto simp: count_accepted_wide [OF that])
  then show ?thesis
    unfolding n by (simp add: thrown_after_def)
qed

theorem invalid_output_returns_reported_count_witness:
  "map_sum id (\<lambda>r. (n_return r, n_thrown r, map (n_memory r) [100, 101], map ramp [100, 101]))
     (native_descramble lp64 (reports 11) (Some session_64K) ramp 0
        2 (Some [4, 0]) (Some [0, 6])
        (DirectByteBuffer 0) 0 10 (Some (DirectByteBuffer 100)) 0 10) =
   Inr (11, Some (ServiceSpecificException ERROR_CAS_UNKNOWN []), [100, 101], [100, 101])"
proof -
  let ?info = "\<lparr>info_totalSize = 10,
      info_subSamples =
        [\<lparr>numBytesOfClearData = 4, numBytesOfEncryptedData = 0\<rparr>,
         \<lparr>numBytesOfClearData = 0, numBytesOfEncryptedData = 6\<rparr>],
      info_events =
        [GetIntArrayElements ClearDataObj, GetIntArrayElements EncryptedDataObj, Resize 2,
         ReleaseIntArrayElements EncryptedDataObj, ReleaseIntArrayElements ClearDataObj]\<rparr>"
  have b: "size_bits lp64 = 64" "vec_resize_ok lp64 = True"
    by (simp_all add: lp64_def)
  have i: "getSubSampleInfo (size_bits lp64) (vec_resize_ok lp64) 2 (Some [4, 0]) (Some [0, 6]) [] =
      Inr ?info"
    by (simp add: b layout_example)
  have t: "0 \<le> info_totalSize ?info"
    by simp
  have ws: "window_ok (DirectByteBuffer 0) 0 10 (to_size_t (size_bits lp64) (info_totalSize ?info))"
    by (simp add: window_ok_def exceeds_limit_def to_size_t_def b)
  have wd: "case Some (DirectByteBuffer 100) of None \<Rightarrow> True
      | Some buf \<Rightarrow> window_ok buf 0 10 (to_size_t (size_bits lp64) (info_totalSize ?info))"
    by (simp add: window_ok_def exceeds_limit_def to_size_t_def b)
  have c: "ensureBufferCapacity lp64 session_64K
      (to_size_t (size_bits lp64) (info_totalSize ?info)) = Inr (True, session_64K)"
    by (simp add: b to_size_t_def session_64K_capacity)
  have m: "mMem session_64K = Some region_64K" "mem_heap region_64K \<noteq> None"
    by (simp_all add: session_64K_def region_64K_def)
  have r: "reports 11 0 (info_subSamples ?info) (mDescramblerSrcBuffer session_64K)
      (copy_in ramp (address (DirectByteBuffer 0) + sint (0 :: jint))
         (nat (to_size_t (size_bits lp64) (info_totalSize ?info))) (mem_bytes region_64K)) =
      Reply OK 11 []
        (copy_in ramp (address (DirectByteBuffer 0) + sint (0 :: jint))
           (nat (to_size_t (size_bits lp64) (info_totalSize ?info))) (mem_bytes region_64K))"
    by (simp add: reports_def)
  have v: "(11 :: uint32_t) = 0 \<or> info_totalSize ?info < uint (11 :: uint32_t)"
    by simp
  obtain res where
    "native_descramble lp64 (reports 11) (Some session_64K) ramp 0 2 (Some [4, 0]) (Some [0, 6])
       (DirectByteBuffer 0) 0 10 (Some (DirectByteBuffer 100)) 0 10 = Inr res"
    "n_return res = 11"
    "32 < size_bits lp64 \<longrightarrow>
       n_thrown res = Some (ServiceSpecificException ERROR_CAS_UNKNOWN []) \<and> n_memory res = ramp"
    using invalid_output_returns_reported_count [where E = lp64 and mDescrambler = "reports 11"
        and key = 0 and mem = ramp and s = session_64K and dstBuf = "Some (DirectByteBuffer 100)"
        and dstOffset = 0 and dstLimit = 10,
        OF i t ws wd c m r v]
    by blast
  then show ?thesis
    by (simp add: b ramp_def)
qed

end
